theory Spec2Isabelle
  imports Complex_Main "HOL-Library.Log_Nat"
begin

section \<open>Data model\<close>

text \<open>
  The module \<^verbatim>\<open>solar_consumer/save_forecast.py\<close> reshapes pandas tables and hands them
  to external stores. A table is modelled with its column labels and its rows, every row
  holding one cell per label. A cell is a number (an integer or a finite float, as the
  rational it denotes; the float arithmetic of the module rounds, see \<open>round_double\<close>), a
  string, a timezone-aware UTC instant in nanoseconds since the epoch (the representation
  pandas uses), a site identifier, or the missing value (NaN, NaT).
  Labels are taken to be distinct: a lookup by label reads the first column so labelled.
\<close>

datatype cell = Num rat | Str string | Time int | Uuid nat | NaN

record dataframe =
  columns :: "string list"
  rows :: "cell list list"

datatype exn =
    KeyError string
  | ValueError string
  | TypeError string
  | Exception string

text \<open>\<^verbatim>\<open>PVSiteEditMetadata\<close> with the three fields this module sets.\<close>

record pvsite =
  client_site_name :: string
  latitude :: string
  longitude :: string

text \<open>A row of the sites table, holding what \<^verbatim>\<open>create_site\<close> is given.\<close>

record site_row =
  location_uuid :: nat
  row_client_site_name :: string
  row_latitude :: string
  row_longitude :: string
  row_client_site_id :: int
  row_country :: string
  row_capacity_kw :: int
  row_dno :: string
  row_gsp :: string

text \<open>The run metadata of a forecast (\<^verbatim>\<open>forecast_meta\<close>).\<close>

record forecast_meta =
  meta_location_uuid :: nat
  timestamp_utc :: int
  forecast_version :: string

text \<open>
  Every call that leaves the module is recorded: the site directory (lookup, create), the
  generation and forecast stores, the session's commit, the bulk save of forecast
  objects (opaque handles), and the file system.
\<close>

datatype call =
    GetSite string string
  | CreateSite site_row
  | InsertGeneration dataframe
  | Commit
  | InsertForecast dataframe forecast_meta string string
  | Save "nat list"
  | Makedirs string
  | ToCsv string dataframe bool

text \<open>
  The world outside the module: the sites table behind the session, the next identifier
  the database hands out, the clock (nanoseconds since the epoch, UTC), the parser behind
  \<^verbatim>\<open>pd.to_datetime\<close>, the calls made so far (oldest first), and \<open>raises\<close>, which
  says for the calls made so far and the next call whether that call raises (a backend
  failure of any kind).
\<close>

record world =
  sites :: "site_row list"
  next_uuid :: nat
  clock :: int
  parse_datetime :: "string \<Rightarrow> int option"
  calls :: "call list"
  raises :: "call list \<Rightarrow> call \<Rightarrow> exn option"

type_synonym 'a res = "(exn + 'a) \<times> world"

section \<open>External collaborators\<close>

text \<open>An external call is recorded, then it raises or returns.\<close>

definition ext :: "call \<Rightarrow> world \<Rightarrow> unit res" where
  "ext c w =
     (case raises w (calls w) c of
        Some e \<Rightarrow> (Inl e, w\<lparr>calls := calls w @ [c]\<rparr>)
      | None \<Rightarrow> (Inr (), w\<lparr>calls := calls w @ [c]\<rparr>))"

text \<open>
  Modelled from the spec: the site directory service of \<^verbatim>\<open>pvsite_datamodel\<close>, which is
  not part of this repository: \<^verbatim>\<open>lookup(client_name, client_site_name)\<close> gives the site
  or not-found (an exception), \<^verbatim>\<open>create(...)\<close> gives the new site and stores it.
\<close>

definition get_site_by_client_site_name :: "world \<Rightarrow> string \<Rightarrow> string \<Rightarrow> site_row res" where
  "get_site_by_client_site_name w name cname =
     (case ext (GetSite name cname) w of
        (Inl e, w1) \<Rightarrow> (Inl e, w1)
      | (Inr _, w1) \<Rightarrow>
          (case find (\<lambda>s. row_client_site_name s = name) (sites w1) of
             None \<Rightarrow> (Inl (Exception ''Could not find site''), w1)
           | Some s \<Rightarrow> (Inr s, w1)))"

definition create_site ::
  "world \<Rightarrow> string \<Rightarrow> string \<Rightarrow> string \<Rightarrow> int \<Rightarrow> string \<Rightarrow> int \<Rightarrow> string \<Rightarrow> string \<Rightarrow> site_row res"
where
  "create_site w lat lon name sid country capacity d g =
     (let s = \<lparr>location_uuid = next_uuid w, row_client_site_name = name,
                row_latitude = lat, row_longitude = lon, row_client_site_id = sid,
                row_country = country, row_capacity_kw = capacity,
                row_dno = d, row_gsp = g\<rparr>
      in case ext (CreateSite s) w of
           (Inl e, w1) \<Rightarrow> (Inl e, w1)
         | (Inr _, w1) \<Rightarrow> (Inr s, w1\<lparr>sites := sites w1 @ [s], next_uuid := Suc (next_uuid w1)\<rparr>))"

section \<open>The site registry\<close>

definition nl_national :: pvsite where
  "nl_national = \<lparr>client_site_name = ''nl_national'', latitude = ''52.15'', longitude = ''5.23''\<rparr>"

definition de_50hertz :: pvsite where
  "de_50hertz = \<lparr>client_site_name = ''50Hertz'', latitude = ''52.53'', longitude = ''13.37''\<rparr>"

definition de_amprion :: pvsite where
  "de_amprion = \<lparr>client_site_name = ''Amprion'', latitude = ''51.52'', longitude = ''7.45''\<rparr>"

definition de_tennet :: pvsite where
  "de_tennet = \<lparr>client_site_name = ''TenneT'', latitude = ''52.38'', longitude = ''5.17''\<rparr>"

definition de_transnetbw :: pvsite where
  "de_transnetbw = \<lparr>client_site_name = ''TransnetBW'', latitude = ''48.78'', longitude = ''9.18''\<rparr>"

text \<open>The dictionaries keep their insertion order, which the loop over the sites follows.\<close>

definition DE_TSO_SITES :: "(string \<times> pvsite) list" where
  "DE_TSO_SITES = [(''TransnetBW'', de_transnetbw), (''50Hertz'', de_50hertz),
                   (''TenneT'', de_tennet), (''Amprion'', de_amprion)]"

definition DE_TSO_CAPACITY :: "(string \<times> int) list" where
  "DE_TSO_CAPACITY = [(''TransnetBW'', 10770000), (''50Hertz'', 18175000),
                      (''TenneT'', 21882000), (''Amprion'', 16506000)]"

section \<open>Site resolution\<close>

text \<open>The capacity chosen in the \<^verbatim>\<open>except\<close> branch; the dictionary lookup raises on a missing key.\<close>

definition choose_capacity :: "int option \<Rightarrow> string \<Rightarrow> string \<Rightarrow> exn + int" where
  "choose_capacity capacity_override_kw country name =
     (case capacity_override_kw of
        Some c \<Rightarrow> Inr c
      | None \<Rightarrow>
          if country = ''de'' then
            (case map_of DE_TSO_CAPACITY name of
               None \<Rightarrow> Inl (KeyError name)
             | Some c \<Rightarrow> Inr c)
          else Inr 20000000)"

definition get_or_create_pvsite :: "world \<Rightarrow> pvsite \<Rightarrow> string \<Rightarrow> int option \<Rightarrow> site_row res" where
  "get_or_create_pvsite w p country capacity_override_kw =
     (case get_site_by_client_site_name w (client_site_name p) (client_site_name p) of
        (Inr site, w1) \<Rightarrow> (Inr site, w1)
      | (Inl _, w1) \<Rightarrow>
          (case choose_capacity capacity_override_kw country (client_site_name p) of
             Inl e \<Rightarrow> (Inl e, w1)
           | Inr capacity \<Rightarrow>
               create_site w1 (latitude p) (longitude p) (client_site_name p) 1 country
                 capacity [] []))"

section \<open>Table operations\<close>

text \<open>\<^verbatim>\<open>df.empty\<close>: some axis has length zero.\<close>

definition df_empty :: "dataframe \<Rightarrow> bool" where
  "df_empty df = (columns df = [] \<or> rows df = [])"

fun col_index :: "string list \<Rightarrow> string \<Rightarrow> nat option" where
  "col_index [] n = None"
| "col_index (c # cs) n = (if c = n then Some 0 else map_option Suc (col_index cs n))"

definition cell_at :: "cell list \<Rightarrow> nat \<Rightarrow> cell" where
  "cell_at r i = (if i < length r then r ! i else NaN)"

text \<open>\<^verbatim>\<open>df[name]\<close> raises on a missing label.\<close>

definition get_col :: "dataframe \<Rightarrow> string \<Rightarrow> exn + cell list" where
  "get_col df name =
     (case col_index (columns df) name of
        None \<Rightarrow> Inl (KeyError name)
      | Some i \<Rightarrow> Inr (map (\<lambda>r. cell_at r i) (rows df)))"

text \<open>\<^verbatim>\<open>df[name] = values\<close> overwrites the column or appends a new one.\<close>

definition set_col :: "dataframe \<Rightarrow> string \<Rightarrow> cell list \<Rightarrow> dataframe" where
  "set_col df name vs =
     (case col_index (columns df) name of
        Some i \<Rightarrow> df\<lparr>rows := map (\<lambda>(r, v). r[i := v]) (zip (rows df) vs)\<rparr>
      | None \<Rightarrow> df\<lparr>columns := columns df @ [name],
                    rows := map (\<lambda>(r, v). r @ [v]) (zip (rows df) vs)\<rparr>)"

text \<open>\<^verbatim>\<open>df.rename(columns=m)\<close>: labels absent from the table are ignored.\<close>

definition rename_columns :: "dataframe \<Rightarrow> (string \<times> string) list \<Rightarrow> dataframe" where
  "rename_columns df m =
     df\<lparr>columns := map (\<lambda>c. case map_of m c of None \<Rightarrow> c | Some c' \<Rightarrow> c') (columns df)\<rparr>"

text \<open>\<^verbatim>\<open>df[df[name] == v]\<close> for a string \<open>v\<close>.\<close>

definition filter_rows :: "dataframe \<Rightarrow> string \<Rightarrow> string \<Rightarrow> exn + dataframe" where
  "filter_rows df name v =
     (case col_index (columns df) name of
        None \<Rightarrow> Inl (KeyError name)
      | Some i \<Rightarrow> Inr (df\<lparr>rows := filter (\<lambda>r. cell_at r i = Str v) (rows df)\<rparr>))"

text \<open>\<^verbatim>\<open>df[[n1, n2, ...]]\<close> raises on the first missing label.\<close>

definition select_columns :: "dataframe \<Rightarrow> string list \<Rightarrow> exn + dataframe" where
  "select_columns df names =
     (case find (\<lambda>n. col_index (columns df) n = None) names of
        Some n \<Rightarrow> Inl (KeyError n)
      | None \<Rightarrow>
          Inr \<lparr>columns = names,
               rows = map (\<lambda>r. map (\<lambda>n. cell_at r (the (col_index (columns df) n))) names)
                        (rows df)\<rparr>)"

text \<open>\<^verbatim>\<open>df.drop(columns=names, errors="ignore")\<close>.\<close>

definition drop_columns :: "dataframe \<Rightarrow> string list \<Rightarrow> dataframe" where
  "drop_columns df names =
     \<lparr>columns = filter (\<lambda>c. c \<notin> set names) (columns df),
      rows = map (\<lambda>r. map snd (filter (\<lambda>(c, v). c \<notin> set names) (zip (columns df) r)))
               (rows df)\<rparr>"

text \<open>A cell-wise operation raises as soon as one cell does.\<close>

fun traverse :: "('a \<Rightarrow> exn + 'b) \<Rightarrow> 'a list \<Rightarrow> exn + 'b list" where
  "traverse f [] = Inr []"
| "traverse f (x # xs) =
     (case f x of
        Inl e \<Rightarrow> Inl e
      | Inr y \<Rightarrow> (case traverse f xs of Inl e \<Rightarrow> Inl e | Inr ys \<Rightarrow> Inr (y # ys)))"

text \<open>\<^verbatim>\<open>int(x)\<close> truncates towards zero and rejects NaN.\<close>

definition py_int :: "rat \<Rightarrow> int" where
  "py_int q = (if 0 \<le> q then \<lfloor>q\<rfloor> else \<lceil>q\<rceil>)"

fun nums :: "cell list \<Rightarrow> rat list" where
  "nums [] = []"
| "nums (Num q # cs) = q # nums cs"
| "nums (c # cs) = nums cs"

fun is_numeric :: "cell \<Rightarrow> bool" where
  "is_numeric (Num q) = True"
| "is_numeric NaN = True"
| "is_numeric c = False"

text \<open>
  \<^verbatim>\<open>int(series.max())\<close> on a numeric column: the maximum skips missing values and is
  NaN when nothing is left. A column with other cells is not a capacity column; the
  model raises there.
\<close>

definition int_max :: "cell list \<Rightarrow> exn + int" where
  "int_max cs =
     (if \<not> list_all is_numeric cs then Inl (TypeError ''capacity_kw'')
      else case nums cs of
             [] \<Rightarrow> Inl (ValueError ''cannot convert float NaN to integer'')
           | q # qs \<Rightarrow> Inr (py_int (fold max qs q)))"

text \<open>\<^verbatim>\<open>pd.to_datetime\<close> on one cell; integers count nanoseconds.\<close>

fun to_datetime :: "world \<Rightarrow> cell \<Rightarrow> exn + cell" where
  "to_datetime w (Time t) = Inr (Time t)"
| "to_datetime w NaN = Inr NaN"
| "to_datetime w (Num q) = Inr (Time (py_int q))"
| "to_datetime w (Str s) =
     (case parse_datetime w s of None \<Rightarrow> Inl (ValueError s) | Some t \<Rightarrow> Inr (Time t))"
| "to_datetime w (Uuid u) = Inl (TypeError ''to_datetime'')"

text \<open>\<^verbatim>\<open>pd.Timedelta(hours=0.25)\<close> in nanoseconds, and adding it to a cell.\<close>

definition quarter_hour :: int where
  "quarter_hour = 900000000000"

fun add_timedelta :: "int \<Rightarrow> cell \<Rightarrow> exn + cell" where
  "add_timedelta d (Time t) = Inr (Time (t + d))"
| "add_timedelta d NaN = Inr NaN"
| "add_timedelta d c = Inl (TypeError ''unsupported operand'')"

text \<open>
  Python's and numpy's floats are IEEE 754 binary64 numbers. An arithmetic operation
  returns the exact result rounded to the nearest number with a significand of 53 bits,
  ties going to the even significand; so does the conversion of an integer. \<open>ilog2 q\<close>
  is the exponent of a positive \<open>q\<close>, the \<open>e\<close> with \<open>2 ^ e \<le> q < 2 ^ (e + 1)\<close>. The range
  of the exponent is not modelled: the quotients below come from 64-bit counts of
  nanoseconds, which neither overflow nor reach the subnormal numbers.
\<close>

definition round_half_even :: "rat \<Rightarrow> int" where
  "round_half_even x =
     (let n = \<lfloor>x\<rfloor>; f = x - of_int n
      in if f < 1 / 2 then n else if 1 / 2 < f then n + 1 else if even n then n else n + 1)"

definition ilog2 :: "rat \<Rightarrow> int" where
  "ilog2 q =
     (let (a, b) = quotient_of q; e = bitlen a - bitlen b
      in if 2 powi e \<le> q then e else e - 1)"

definition round_double :: "rat \<Rightarrow> rat" where
  "round_double q =
     (if q = 0 then 0
      else let ulp = 2 powi (ilog2 \<bar>q\<bar> - 52)
           in sgn q * of_int (round_half_even (\<bar>q\<bar> / ulp)) * ulp)"

text \<open>The division \<^verbatim>\<open>a / b\<close> of two floats, \<open>b\<close> not zero.\<close>

definition fdiv :: "rat \<Rightarrow> rat \<Rightarrow> rat" where
  "fdiv a b = round_double (a / b)"

text \<open>
  \<^verbatim>\<open>(start - timestamp).dt.total_seconds() / 60\<close> on one cell. The difference of two
  instants is a count of nanoseconds (an integer); \<^verbatim>\<open>total_seconds\<close> of pandas 2 divides
  that count by the \<open>10 ^ 9\<close> nanoseconds of a second, which converts the count to a float
  and divides; the module then divides by 60. A missing start (NaT) gives NaN.
\<close>

fun horizon_minutes :: "int \<Rightarrow> cell \<Rightarrow> exn + cell" where
  "horizon_minutes ts (Time t) =
     Inr (Num (fdiv (fdiv (round_double (of_int (t - ts))) 1000000000) 60))"
| "horizon_minutes ts NaN = Inr NaN"
| "horizon_minutes ts c = Inl (TypeError ''unsupported operand'')"

text \<open>\<^verbatim>\<open>Timestamp.floor("15min")\<close>.\<close>

definition floor15 :: "int \<Rightarrow> int" where
  "floor15 t = t - t mod quarter_hour"

text \<open>\<^verbatim>\<open>os.path.join\<close> of two components on a POSIX system.\<close>

definition path_join :: "string \<Rightarrow> string \<Rightarrow> string" where
  "path_join a b =
     (if b \<noteq> [] \<and> hd b = CHR ''/'' then b
      else if a = [] \<or> last a = CHR ''/'' then a @ b
      else a @ ''/'' @ b)"

section \<open>Saving generation data\<close>

definition capacity_override :: "dataframe \<Rightarrow> exn + int option" where
  "capacity_override generation_data =
     (if ''capacity_kw'' \<in> set (columns generation_data) then
        (case get_col generation_data ''capacity_kw'' of
           Inl e \<Rightarrow> Inl e
         | Inr cs \<Rightarrow> (case int_max cs of Inl e \<Rightarrow> Inl e | Inr m \<Rightarrow> Inr (Some m)))
      else Inr None)"

text \<open>The rows of one site: filtered by zone for Germany, all of them otherwise.\<close>

definition tso_bucket :: "string \<Rightarrow> dataframe \<Rightarrow> string \<Rightarrow> exn + dataframe" where
  "tso_bucket country generation_data tso =
     (if country = ''de'' then filter_rows generation_data ''tso_zone'' tso
      else Inr generation_data)"

text \<open>Renaming, the conversion of the start times and the site stamp, before the insert.\<close>

definition prepare_generation :: "world \<Rightarrow> dataframe \<Rightarrow> site_row \<Rightarrow> exn + dataframe" where
  "prepare_generation w generation_data_tso_df site =
     (let d1 = rename_columns generation_data_tso_df
                 [(''solar_generation_kw'', ''power_kw''), (''target_datetime_utc'', ''start_utc'')]
      in case get_col d1 ''start_utc'' of
           Inl e \<Rightarrow> Inl e
         | Inr cs \<Rightarrow>
             (case traverse (to_datetime w) cs of
                Inl e \<Rightarrow> Inl e
              | Inr ts \<Rightarrow>
                  Inr (set_col (set_col d1 ''start_utc'' ts) ''site_uuid''
                         (replicate (length (rows d1)) (Uuid (location_uuid site))))))"

text \<open>One pass of the loop over the sites; \<^verbatim>\<open>continue\<close> returns with the world as it is.\<close>

definition save_site :: "string \<Rightarrow> int option \<Rightarrow> dataframe \<Rightarrow> string \<Rightarrow> pvsite \<Rightarrow> world \<Rightarrow> unit res" where
  "save_site country capacity_override_kw generation_data tso p w =
     (case tso_bucket country generation_data tso of
        Inl e \<Rightarrow> (Inl e, w)
      | Inr generation_data_tso_df \<Rightarrow>
          if df_empty generation_data_tso_df then (Inr (), w)
          else
            (case get_or_create_pvsite w p country capacity_override_kw of
               (Inl e, w1) \<Rightarrow> (Inl e, w1)
             | (Inr site, w1) \<Rightarrow>
                 (case prepare_generation w1 generation_data_tso_df site of
                    Inl e \<Rightarrow> (Inl e, w1)
                  | Inr d \<Rightarrow>
                      (case ext (InsertGeneration d) w1 of
                         (Inl e, w2) \<Rightarrow> (Inl e, w2)
                       | (Inr _, w2) \<Rightarrow> ext Commit w2))))"

fun save_sites ::
  "string \<Rightarrow> int option \<Rightarrow> dataframe \<Rightarrow> (string \<times> pvsite) list \<Rightarrow> world \<Rightarrow> unit res"
where
  "save_sites country ov generation_data [] w = (Inr (), w)"
| "save_sites country ov generation_data ((tso, p) # rest) w =
     (case save_site country ov generation_data tso p w of
        (Inl e, w1) \<Rightarrow> (Inl e, w1)
      | (Inr _, w1) \<Rightarrow> save_sites country ov generation_data rest w1)"

definition country_sites :: "string \<Rightarrow> exn + (string \<times> pvsite) list" where
  "country_sites country =
     (if country = ''nl'' then Inr [(''nl_national'', nl_national)]
      else if country = ''de'' then Inr DE_TSO_SITES
      else Inl (Exception ''Only generation data from the following countries is supported when saving: nl, de''))"

definition save_generation_to_site_db :: "dataframe \<Rightarrow> world \<Rightarrow> string \<Rightarrow> unit res" where
  "save_generation_to_site_db generation_data w country =
     (if df_empty generation_data then (Inr (), w)
      else
        (case country_sites country of
           Inl e \<Rightarrow> (Inl e, w)
         | Inr cs \<Rightarrow>
             (case capacity_override generation_data of
                Inl e \<Rightarrow> (Inl e, w)
              | Inr ov \<Rightarrow> save_sites country ov generation_data cs w)))"

section \<open>Saving forecasts\<close>

text \<open>
  The caller's table is renamed in place; the narrowed table and its two derived columns
  are a new object. The result carries the caller's table as the call leaves it.
\<close>

definition reshape_forecast :: "int \<Rightarrow> dataframe \<Rightarrow> exn + dataframe" where
  "reshape_forecast ts renamed =
     (case select_columns renamed [''forecast_power_kw'', ''start_utc''] of
        Inl e \<Rightarrow> Inl e
      | Inr fd \<Rightarrow>
          (case get_col fd ''start_utc'' of
             Inl e \<Rightarrow> Inl e
           | Inr starts \<Rightarrow>
               (case traverse (add_timedelta quarter_hour) starts of
                  Inl e \<Rightarrow> Inl e
                | Inr ends \<Rightarrow>
                    (let fd1 = set_col fd ''end_utc'' ends
                     in case get_col fd1 ''start_utc'' of
                          Inl e \<Rightarrow> Inl e
                        | Inr starts1 \<Rightarrow>
                            (case traverse (horizon_minutes ts) starts1 of
                               Inl e \<Rightarrow> Inl e
                             | Inr hs \<Rightarrow> Inr (set_col fd1 ''horizon_minutes'' hs))))))"

definition save_forecasts_to_site_db ::
  "dataframe \<Rightarrow> world \<Rightarrow> string \<Rightarrow> string \<Rightarrow> string \<Rightarrow> (exn + unit) \<times> dataframe \<times> world"
where
  "save_forecasts_to_site_db forecast_data w model_tag model_version country =
     (if country \<noteq> ''nl'' then
        (Inl (Exception ''Only NL forecast data is supported when saving (atm).''), forecast_data, w)
      else
        (case get_or_create_pvsite w nl_national country None of
           (Inl e, w1) \<Rightarrow> (Inl e, forecast_data, w1)
         | (Inr site, w1) \<Rightarrow>
             (let ts = floor15 (clock w1);
                  meta = \<lparr>meta_location_uuid = location_uuid site, timestamp_utc = ts,
                          forecast_version = model_version\<rparr>;
                  renamed = rename_columns forecast_data
                    [(''solar_generation_kw'', ''forecast_power_kw''),
                     (''target_datetime_utc'', ''start_utc'')]
              in case reshape_forecast ts renamed of
                   Inl e \<Rightarrow> (Inl e, renamed, w1)
                 | Inr fd \<Rightarrow>
                     (case ext (InsertForecast fd meta model_tag model_version) w1 of
                        (r, w2) \<Rightarrow> (r, renamed, w2)))))"

definition save_forecasts_to_db :: "nat list \<Rightarrow> world \<Rightarrow> unit res" where
  "save_forecasts_to_db forecasts w =
     (if forecasts = [] then (Inr (), w) else ext (Save forecasts) w)"

text \<open>\<^verbatim>\<open>not csv_dir\<close> holds for \<^verbatim>\<open>None\<close> and for the empty string.\<close>

definition save_forecasts_to_csv ::
  "dataframe \<Rightarrow> string option \<Rightarrow> world \<Rightarrow> (exn + unit) \<times> dataframe \<times> world"
where
  "save_forecasts_to_csv forecasts csv_dir w =
     (if df_empty forecasts then (Inr (), forecasts, w)
      else
        (case csv_dir of
           None \<Rightarrow> (Inl (ValueError ''CSV directory is not provided for CSV saving.''), forecasts, w)
         | Some d \<Rightarrow>
             if d = [] then
               (Inl (ValueError ''CSV directory is not provided for CSV saving.''), forecasts, w)
             else
               (case ext (Makedirs d) w of
                  (Inl e, w1) \<Rightarrow> (Inl e, forecasts, w1)
                | (Inr _, w1) \<Rightarrow>
                    (let csv_path = path_join d ''forecast_data.csv'';
                         dropped = drop_columns forecasts [''_sa_instance_state'']
                     in case ext (ToCsv csv_path dropped False) w1 of
                          (r, w2) \<Rightarrow> (r, dropped, w2)))))"

section \<open>Observing a call\<close>

text \<open>The external calls made between two worlds.\<close>

definition new_calls :: "world \<Rightarrow> world \<Rightarrow> call list" where
  "new_calls w w' = drop (length (calls w)) (calls w')"

text \<open>A fresh database with no site, on which no external call raises.\<close>

definition world0 :: world where
  "world0 = \<lparr>sites = [], next_uuid = 0, clock = 1700000123456789000,
             parse_datetime = (\<lambda>s. None), calls = [], raises = (\<lambda>cs c. None)\<rparr>"

text \<open>Every row has one cell per label.\<close>

definition well_formed :: "dataframe \<Rightarrow> bool" where
  "well_formed df = list_all (\<lambda>r. length r = length (columns df)) (rows df)"

text \<open>Sample tables: a forecast table without rows, and one with two rows.\<close>

definition empty_forecast :: dataframe where
  "empty_forecast = \<lparr>columns = [''solar_generation_kw'', ''target_datetime_utc''], rows = []\<rparr>"

definition sample_forecast :: dataframe where
  "sample_forecast =
     \<lparr>columns = [''target_datetime_utc'', ''solar_generation_kw'', ''_sa_instance_state''],
      rows = [[Time 1700000100000000000, Num 5, Str ''state''],
              [Time 1700000190000000000, Num 6, Str ''state'']]\<rparr>"

text \<open>What the forecast insert receives for the sample table on the fresh database.\<close>

definition sample_reshaped :: dataframe where
  "sample_reshaped =
     \<lparr>columns = [''forecast_power_kw'', ''start_utc'', ''end_utc'', ''horizon_minutes''],
      rows = [[Num 5, Time 1700000100000000000, Time 1700001000000000000, Num 0],
              [Num 6, Time 1700000190000000000, Time 1700001090000000000, Num (3 / 2)]]\<rparr>"

definition sample_meta :: forecast_meta where
  "sample_meta = \<lparr>meta_location_uuid = 0, timestamp_utc = 1700000100000000000,
                   forecast_version = ''v1''\<rparr>"

text \<open>
  A forecast table whose starts lie 15 minutes before the issuance time of the fresh
  database, 100 seconds before it, 100 seconds after it and 123,456,789 ns after it, with
  one start missing; and what the forecast insert receives for it.
\<close>

definition sample_horizons :: dataframe where
  "sample_horizons =
     \<lparr>columns = [''target_datetime_utc'', ''solar_generation_kw''],
      rows = [[Time 1699999200000000000, Num 1],
              [Time 1700000000000000000, Num 2],
              [Time 1700000200000000000, Num 3],
              [Time 1700000100123456789, Num 4],
              [NaN, Num 5]]\<rparr>"

definition sample_horizons_reshaped :: dataframe where
  "sample_horizons_reshaped =
     \<lparr>columns = [''forecast_power_kw'', ''start_utc'', ''end_utc'', ''horizon_minutes''],
      rows = [[Num 1, Time 1699999200000000000, Time 1700000100000000000, Num (- 15)],
              [Num 2, Time 1700000000000000000, Time 1700000900000000000,
               Num (- (7505999378950827 / 4503599627370496))],
              [Num 3, Time 1700000200000000000, Time 1700001100000000000,
               Num (7505999378950827 / 4503599627370496)],
              [Num 4, Time 1700000100123456789, Time 1700001000123456789,
               Num (1186133224398417 / 576460752303423488)],
              [Num 5, NaN, NaN, NaN]]\<rparr>"

text \<open>A generation table for Germany: two known zones and one unknown.\<close>

definition sample_generation :: dataframe where
  "sample_generation =
     \<lparr>columns = [''solar_generation_kw'', ''target_datetime_utc'', ''capacity_kw'', ''tso_zone''],
      rows = [[Num 5, Time 1700000100000000000, Num 100, Str ''TenneT''],
              [Num 6, Time 1700000100000000000, Num 250, Str ''Nowhere''],
              [Num 7, Time 1700000100000000000, Num 70, Str ''Amprion'']]\<rparr>"

text \<open>The tables handed to the generation insert, in the order of the calls.\<close>

fun inserted :: "call list \<Rightarrow> dataframe list" where
  "inserted [] = []"
| "inserted (InsertGeneration d # cs) = d # inserted cs"
| "inserted (c # cs) = inserted cs"

text \<open>The fresh database behind a backend on which every lookup but the first raises.\<close>

definition world_flaky :: world where
  "world_flaky = world0\<lparr>raises := (\<lambda>cs c.
     if cs \<noteq> [] \<and> c = GetSite ''nl_national'' ''nl_national''
     then Some (Exception ''connection lost'') else None)\<rparr>"

text \<open>
  What the generation insert is to receive for one row of a site's bucket: the row as it
  is, except that the start time (the column called \<^verbatim>\<open>start_utc\<close> after the renaming)
  is converted and the column \<^verbatim>\<open>site_uuid\<close> holds the identifier of the site.
\<close>

definition stamped :: "world \<Rightarrow> dataframe \<Rightarrow> site_row \<Rightarrow> cell list \<Rightarrow> cell list \<Rightarrow> bool" where
  "stamped w df site row row' =
     (let cols = columns (rename_columns df
                   [(''solar_generation_kw'', ''power_kw''), (''target_datetime_utc'', ''start_utc'')])
      in case col_index cols ''start_utc'' of
           None \<Rightarrow> False
         | Some j \<Rightarrow>
             (case to_datetime w (cell_at row j) of
                Inl e \<Rightarrow> False
              | Inr t \<Rightarrow>
                  row' = (case col_index cols ''site_uuid'' of
                            Some k \<Rightarrow> (row[j := t])[k := Uuid (location_uuid site)]
                          | None \<Rightarrow> row[j := t] @ [Uuid (location_uuid site)])))"

section \<open>Site resolution: properties\<close>

lemma ext_calls: "ext c w = (r, w') \<Longrightarrow> calls w' = calls w @ [c] \<and> sites w' = sites w \<and> raises w' = raises w \<and> clock w' = clock w \<and> next_uuid w' = next_uuid w \<and> parse_datetime w' = parse_datetime w"
  by (auto simp: ext_def split: option.splits)

lemma ext_result: "fst (ext c w) = (case raises w (calls w) c of Some e \<Rightarrow> Inl e | None \<Rightarrow> Inr ())"
  by (simp add: ext_def split: option.splits)

lemma lookup_world: "get_site_by_client_site_name w n m = (r, w') \<Longrightarrow> w' = w\<lparr>calls := calls w @ [GetSite n m]\<rparr>"
  by (auto simp: get_site_by_client_site_name_def ext_def split: option.splits)

lemma find_SomeD: "find P xs = Some x \<Longrightarrow> x \<in> set xs \<and> P x"
  by (induction xs) (auto split: if_splits)

lemma find_append: "find P (xs @ ys) = (case find P xs of None \<Rightarrow> find P ys | Some x \<Rightarrow> Some x)"
  by (induction xs) auto

lemma lookup_fails_iff:
  "(\<exists>e. fst (get_site_by_client_site_name w n m) = Inl e) \<longleftrightarrow>
     raises w (calls w) (GetSite n m) \<noteq> None \<or> (\<forall>s \<in> set (sites w). row_client_site_name s \<noteq> n)"
  by (auto simp: get_site_by_client_site_name_def ext_def find_None_iff split: option.splits dest: find_SomeD)

lemma lookup_finds:
  "get_site_by_client_site_name w n m = (Inr s, w') \<Longrightarrow>
     find (\<lambda>s. row_client_site_name s = n) (sites w) = Some s \<and> raises w (calls w) (GetSite n m) = None"
  by (auto simp: get_site_by_client_site_name_def ext_def split: option.splits)

lemma gocp_found:
  "get_site_by_client_site_name w (client_site_name p) (client_site_name p) = (Inr s, w1) \<Longrightarrow>
   get_or_create_pvsite w p country ov = (Inr s, w\<lparr>calls := calls w @ [GetSite (client_site_name p) (client_site_name p)]\<rparr>)"
  using lookup_world[of w "client_site_name p" "client_site_name p" "Inr s" w1]
  by (simp add: get_or_create_pvsite_def)

lemma gocp_cases:
  assumes "get_or_create_pvsite w p country ov = (r, w')"
  shows "(new_calls w w' = [GetSite (client_site_name p) (client_site_name p)] \<and> sites w' = sites w
          \<and> ((\<exists>s. r = Inr s \<and> fst (get_site_by_client_site_name w (client_site_name p) (client_site_name p)) = Inr s
                  \<and> find (\<lambda>s. row_client_site_name s = client_site_name p) (sites w) = Some s)
              \<or> (\<exists>e. r = Inl e \<and> choose_capacity ov country (client_site_name p) = Inl e
                     \<and> (\<exists>e'. fst (get_site_by_client_site_name w (client_site_name p) (client_site_name p)) = Inl e'))))
       \<or> (\<exists>s c. new_calls w w' = [GetSite (client_site_name p) (client_site_name p), CreateSite s]
             \<and> (\<exists>e'. fst (get_site_by_client_site_name w (client_site_name p) (client_site_name p)) = Inl e')
             \<and> choose_capacity ov country (client_site_name p) = Inr c
             \<and> s = \<lparr>location_uuid = next_uuid w, row_client_site_name = client_site_name p,
                row_latitude = latitude p, row_longitude = longitude p, row_client_site_id = 1,
                row_country = country, row_capacity_kw = c,
                row_dno = [], row_gsp = []\<rparr>
             \<and> (r = Inr s \<and> sites w' = sites w @ [s] \<or> (\<exists>e. r = Inl e) \<and> sites w' = sites w))"
  using assms
  by (auto simp: get_or_create_pvsite_def get_site_by_client_site_name_def create_site_def ext_def new_calls_def Let_def
      split: option.splits sum.splits prod.splits if_splits)

lemma gocp_frame:
  assumes "get_or_create_pvsite w p country ov = (r, w')"
  shows "raises w' = raises w \<and> clock w' = clock w \<and> parse_datetime w' = parse_datetime w \<and> (\<exists>cs. calls w' = calls w @ cs)"
  using assms
  by (auto simp: get_or_create_pvsite_def get_site_by_client_site_name_def create_site_def ext_def new_calls_def Let_def
      split: option.splits sum.splits prod.splits if_splits)

text \<open>
  C4. When site resolution creates a site, the capacity it passes to the create is the
  override if one is given; without an override and for country "de" it is the entry of
  the per-TSO capacity table for the site's client name; without an override and for any
  other country it is 20,000,000 kW.
\<close>

theorem created_capacity_resolution:
  assumes "get_or_create_pvsite w p country ov = (r, w')"
    and "CreateSite s \<in> set (new_calls w w')"
  shows "(\<forall>c. ov = Some c \<longrightarrow> row_capacity_kw s = c)
       \<and> (ov = None \<and> country = ''de'' \<longrightarrow>
            map_of DE_TSO_CAPACITY (client_site_name p) = Some (row_capacity_kw s))
       \<and> (ov = None \<and> country \<noteq> ''de'' \<longrightarrow> row_capacity_kw s = 20000000)"
  using gocp_cases[OF assms(1)] assms(2)
  by (auto simp: choose_capacity_def split: option.splits if_splits)


lemma choose_capacity_ok_iff:
  "(\<exists>c. choose_capacity ov country n = Inr c) \<longleftrightarrow>
     ov \<noteq> None \<or> country \<noteq> ''de'' \<or> n \<in> {''TransnetBW'', ''50Hertz'', ''TenneT'', ''Amprion''}"
  by (auto simp: choose_capacity_def DE_TSO_CAPACITY_def split: option.splits if_splits)

lemma gocp_create_iff:
  assumes "get_or_create_pvsite w p country ov = (r, w')"
  shows "(\<exists>s. CreateSite s \<in> set (new_calls w w')) \<longleftrightarrow>
            (\<exists>e. fst (get_site_by_client_site_name w (client_site_name p) (client_site_name p)) = Inl e)
            \<and> (ov \<noteq> None \<or> country \<noteq> ''de''
                 \<or> client_site_name p \<in> {''TransnetBW'', ''50Hertz'', ''TenneT'', ''Amprion''})"
  using gocp_cases[OF assms] choose_capacity_ok_iff[of ov country "client_site_name p"]
  by auto

lemma gocp_found_frame:
  assumes "get_or_create_pvsite w p country ov = (r, w')"
    and "fst (get_site_by_client_site_name w (client_site_name p) (client_site_name p)) = Inr s"
  shows "r = Inr s \<and> sites w' = sites w
         \<and> new_calls w w' = [GetSite (client_site_name p) (client_site_name p)]"
proof -
  let ?n = "client_site_name p"
  have "get_site_by_client_site_name w ?n ?n = (Inr s, snd (get_site_by_client_site_name w ?n ?n))"
    using assms(2) by (metis prod.collapse)
  from gocp_found[OF this, of country ov] assms(1)
  show ?thesis by (auto simp: new_calls_def)
qed

lemma gocp_Inr_cases:
  assumes "get_or_create_pvsite w p country ov = (Inr s, w')"
  shows "(find (\<lambda>s. row_client_site_name s = client_site_name p) (sites w) = Some s
            \<and> sites w' = sites w)
       \<or> (row_client_site_name s = client_site_name p \<and> sites w' = sites w @ [s]
            \<and> (raises w (calls w) (GetSite (client_site_name p) (client_site_name p)) \<noteq> None
                \<or> find (\<lambda>s. row_client_site_name s = client_site_name p) (sites w) = None))"
  using assms
  by (auto simp: get_or_create_pvsite_def get_site_by_client_site_name_def create_site_def ext_def Let_def
      split: option.splits sum.splits prod.splits if_splits)

lemma gocp_second_call:
  assumes "get_or_create_pvsite w p country ov = (Inr s, w')"
    and "raises w' (calls w') (GetSite (client_site_name p) (client_site_name p)) = None"
  shows "\<exists>s'. get_or_create_pvsite w' p country' ov' =
                (Inr s', w'\<lparr>calls := calls w' @ [GetSite (client_site_name p) (client_site_name p)]\<rparr>)
             \<and> row_client_site_name s' = client_site_name p
             \<and> (raises w (calls w) (GetSite (client_site_name p) (client_site_name p)) = None
                  \<longrightarrow> s' = s)"
proof -
  let ?n = "client_site_name p"
  have "\<exists>s'. find (\<lambda>s. row_client_site_name s = ?n) (sites w') = Some s'
            \<and> (raises w (calls w) (GetSite ?n ?n) = None \<longrightarrow> s' = s)"
    using gocp_Inr_cases[OF assms(1)]
    by (cases "find (\<lambda>s. row_client_site_name s = ?n) (sites w)") (auto simp: find_append)
  then obtain s' where s': "find (\<lambda>s. row_client_site_name s = ?n) (sites w') = Some s'"
     "raises w (calls w) (GetSite ?n ?n) = None \<longrightarrow> s' = s" by auto
  have "get_site_by_client_site_name w' ?n ?n = (Inr s', w'\<lparr>calls := calls w' @ [GetSite ?n ?n]\<rparr>)"
    using s'(1) assms(2) by (simp add: get_site_by_client_site_name_def ext_def)
  from gocp_found[OF this] s' find_SomeD[OF s'(1)]
  show ?thesis by auto
qed

theorem created_capacity_resolution_witness:
  "CreateSite \<lparr>location_uuid = 0, row_client_site_name = ''TenneT'', row_latitude = ''52.38'',
          row_longitude = ''5.17'', row_client_site_id = 1, row_country = ''de'',
          row_capacity_kw = 21882000, row_dno = [], row_gsp = []\<rparr>
     \<in> set (new_calls world0 (snd (get_or_create_pvsite world0 de_tennet ''de'' None)))
   \<and> map_of DE_TSO_CAPACITY (client_site_name de_tennet) = Some 21882000"
proof -
  let ?r = "get_or_create_pvsite world0 de_tennet ''de'' None"
  let ?s = "\<lparr>location_uuid = 0, row_client_site_name = ''TenneT'', row_latitude = ''52.38'',
          row_longitude = ''5.17'', row_client_site_id = 1, row_country = ''de'',
          row_capacity_kw = 21882000, row_dno = [], row_gsp = []\<rparr>"
  have e: "?r = (fst ?r, snd ?r)" by simp
  have c: "CreateSite ?s \<in> set (new_calls world0 (snd ?r))"
    by (simp add: get_or_create_pvsite_def get_site_by_client_site_name_def create_site_def ext_def
        world0_def de_tennet_def choose_capacity_def Let_def new_calls_def DE_TSO_CAPACITY_def)
  from created_capacity_resolution[OF e c] c show ?thesis by simp
qed

section \<open>Empty input and unsupported countries\<close>

text \<open>Three of the four operations test for an empty input first and then do nothing.\<close>

lemma empty_input_guards:
  "df_empty df \<Longrightarrow> save_generation_to_site_db df w country = (Inr (), w)"
  "df_empty df \<Longrightarrow> save_forecasts_to_csv df csv_dir w = (Inr (), df, w)"
  "save_forecasts_to_db [] w = (Inr (), w)"
  by (simp_all add: save_generation_to_site_db_def save_forecasts_to_csv_def save_forecasts_to_db_def)

lemmas run_defs = get_or_create_pvsite_def get_site_by_client_site_name_def create_site_def ext_def
  choose_capacity_def Let_def new_calls_def world0_def

text \<open>
  C1. The claim holds for the generation save, the save of forecast objects and the CSV
  export (above). The forecast-table save has no such test: on a table without rows, for
  country "nl" and a fresh database, it looks the national site up, creates it and calls
  the forecast insert with an empty table.
\<close>

theorem forecast_save_of_empty_table_reaches_the_stores:
  "df_empty empty_forecast
   \<and> fst (save_forecasts_to_site_db empty_forecast world0 ''m'' ''v1'' ''nl'') = Inr ()
   \<and> calls (snd (snd (save_forecasts_to_site_db empty_forecast world0 ''m'' ''v1'' ''nl''))) =
       [GetSite ''nl_national'' ''nl_national'',
        CreateSite \<lparr>location_uuid = 0, row_client_site_name = ''nl_national'',
          row_latitude = ''52.15'', row_longitude = ''5.23'', row_client_site_id = 1,
          row_country = ''nl'', row_capacity_kw = 20000000, row_dno = [], row_gsp = []\<rparr>,
        InsertForecast
          \<lparr>columns = [''forecast_power_kw'', ''start_utc'', ''end_utc'', ''horizon_minutes''],
           rows = []\<rparr>
          \<lparr>meta_location_uuid = 0, timestamp_utc = 1700000100000000000, forecast_version = ''v1''\<rparr>
          ''m'' ''v1'']"
  by (simp add: save_forecasts_to_site_db_def run_defs nl_national_def empty_forecast_def df_empty_def
      reshape_forecast_def select_columns_def get_col_def set_col_def rename_columns_def
      floor15_def quarter_hour_def)

text \<open>
  C5, as amended. For every non-empty table the generation save with a country other than
  "nl" and "de" raises, and for every table the forecast-table save with a country other
  than "nl" raises; in both cases the world is left as it was: no lookup, create, insert
  or commit has been made.
\<close>

theorem unsupported_country_is_fatal:
  "(\<not> df_empty df \<and> country \<noteq> ''nl'' \<and> country \<noteq> ''de'' \<longrightarrow>
      (\<exists>msg. save_generation_to_site_db df w country = (Inl (Exception msg), w)))
   \<and> (country \<noteq> ''nl'' \<longrightarrow>
      (\<exists>msg. save_forecasts_to_site_db df w model_tag model_version country
               = (Inl (Exception msg), df, w)))"
  by (simp add: save_generation_to_site_db_def save_forecasts_to_site_db_def country_sites_def)

theorem unsupported_country_witness:
  "\<not> df_empty sample_forecast
   \<and> fst (save_generation_to_site_db sample_forecast world0 ''fr'') =
       Inl (Exception ''Only generation data from the following countries is supported when saving: nl, de'')
   \<and> calls (snd (save_generation_to_site_db sample_forecast world0 ''fr'')) = []
   \<and> fst (save_forecasts_to_site_db sample_forecast world0 ''m'' ''v1'' ''de'') =
       Inl (Exception ''Only NL forecast data is supported when saving (atm).'')
   \<and> calls (snd (snd (save_forecasts_to_site_db sample_forecast world0 ''m'' ''v1'' ''de''))) = []"
proof -
  have ne: "\<not> df_empty sample_forecast" by (simp add: df_empty_def sample_forecast_def)
  from unsupported_country_is_fatal[of sample_forecast "''fr''" world0 "''m''" "''v1''"] ne
  have a: "\<exists>msg. save_generation_to_site_db sample_forecast world0 ''fr'' = (Inl (Exception msg), world0)"
    by simp
  from unsupported_country_is_fatal[of sample_forecast "''de''" world0 "''m''" "''v1''"]
  have b: "\<exists>msg. save_forecasts_to_site_db sample_forecast world0 ''m'' ''v1'' ''de''
               = (Inl (Exception msg), sample_forecast, world0)"
    by simp
  have c: "fst (save_generation_to_site_db sample_forecast world0 ''fr'') =
       Inl (Exception ''Only generation data from the following countries is supported when saving: nl, de'')"
    using ne by (simp add: save_generation_to_site_db_def country_sites_def)
  have d: "fst (save_forecasts_to_site_db sample_forecast world0 ''m'' ''v1'' ''de'') =
       Inl (Exception ''Only NL forecast data is supported when saving (atm).'')"
    by (simp add: save_forecasts_to_site_db_def)
  from a b c d ne show ?thesis by (auto simp: world0_def)
qed

text \<open>
  C5 as stated fails on an empty table: the generation save tests for the empty table
  before it looks at the country, and returns normally.
\<close>

theorem generation_save_empty_table_unsupported_country:
  "df_empty \<lparr>columns = [], rows = []\<rparr>
   \<and> fst (save_generation_to_site_db \<lparr>columns = [], rows = []\<rparr> world0 ''fr'') = Inr ()
   \<and> calls (snd (save_generation_to_site_db \<lparr>columns = [], rows = []\<rparr> world0 ''fr'')) = []"
  by (simp add: save_generation_to_site_db_def df_empty_def world0_def)

section \<open>CSV export and the caller's table\<close>

lemma drop_columns_labels:
  "columns (drop_columns df ns) = filter (\<lambda>c. c \<notin> set ns) (columns df)"
  by (simp add: drop_columns_def)

lemma drop_cells_absent:
  "length r = length cs \<Longrightarrow> \<forall>c \<in> set cs. c \<notin> set ns \<Longrightarrow>
   map snd (filter (\<lambda>(c, v). c \<notin> set ns) (zip cs r)) = r"
proof (induction cs arbitrary: r)
  case Nil
  then show ?case by simp
next
  case (Cons c cs)
  then obtain v vs where r: "r = v # vs" by (cases r) auto
  with Cons show ?case by simp
qed

lemma drop_columns_absent:
  assumes "well_formed df" and "\<forall>n \<in> set ns. n \<notin> set (columns df)"
  shows "drop_columns df ns = df"
proof -
  have c: "filter (\<lambda>c. c \<notin> set ns) (columns df) = columns df"
    using assms(2) by (auto simp: filter_id_conv)
  have "map (\<lambda>r. map snd (filter (\<lambda>(c, v). c \<notin> set ns) (zip (columns df) r))) (rows df) = map (\<lambda>r. r) (rows df)"
  proof (rule map_cong[OF refl])
    fix r assume "r \<in> set (rows df)"
    then have "length r = length (columns df)"
      using assms(1) by (simp add: well_formed_def list_all_iff)
    then show "map snd (filter (\<lambda>(c, v). c \<notin> set ns) (zip (columns df) r)) = r"
      using assms(2) by (intro drop_cells_absent) auto
  qed
  with c show ?thesis by (simp add: drop_columns_def)
qed

lemma drop_cells_kept:
  "length r = length cs \<Longrightarrow> c \<notin> set ns \<Longrightarrow> col_index cs c = Some i \<Longrightarrow>
   \<exists>j. col_index (filter (\<lambda>c. c \<notin> set ns) cs) c = Some j
      \<and> cell_at (map snd (filter (\<lambda>(c, v). c \<notin> set ns) (zip cs r))) j = cell_at r i"
proof (induction cs arbitrary: r i)
  case Nil
  then show ?case by simp
next
  case (Cons a cs)
  then obtain v vs where r: "r = v # vs" by (cases r) auto
  show ?case
  proof (cases "a = c")
    case True
    with Cons r show ?thesis by (simp add: cell_at_def)
  next
    case False
    with Cons.prems obtain i' where i': "col_index cs c = Some i'" "i = Suc i'"
      by (auto split: if_splits)
    from Cons.IH[of vs i'] Cons.prems r i'
    obtain j where j: "col_index (filter (\<lambda>c. c \<notin> set ns) cs) c = Some j"
      "cell_at (map snd (filter (\<lambda>(c, v). c \<notin> set ns) (zip cs vs))) j = cell_at vs i'"
      by auto
    show ?thesis using False r i' j by (auto simp: cell_at_def)
  qed
qed

lemma col_index_None_iff: "col_index cs c = None \<longleftrightarrow> c \<notin> set cs"
  by (induction cs) auto

lemma drop_columns_get_col:
  assumes "well_formed df" and "c \<notin> set ns"
  shows "get_col (drop_columns df ns) c = get_col df c"
proof (cases "col_index (columns df) c")
  case None
  then have "col_index (filter (\<lambda>c. c \<notin> set ns) (columns df)) c = None"
    by (simp add: col_index_None_iff)
  with None show ?thesis by (simp add: get_col_def drop_columns_def)
next
  case (Some i)
  have "c \<in> set (filter (\<lambda>c. c \<notin> set ns) (columns df))"
    using Some assms(2) col_index_None_iff[of "columns df" c] by auto
  then obtain j where j: "col_index (filter (\<lambda>c. c \<notin> set ns) (columns df)) c = Some j"
    using col_index_None_iff[of "filter (\<lambda>c. c \<notin> set ns) (columns df)" c] by (cases "col_index (filter (\<lambda>c. c \<notin> set ns) (columns df)) c") auto
  have "map (\<lambda>r. cell_at (map snd (filter (\<lambda>(c, v). c \<notin> set ns) (zip (columns df) r))) j) (rows df)
        = map (\<lambda>r. cell_at r i) (rows df)"
  proof (rule map_cong[OF refl])
    fix r assume "r \<in> set (rows df)"
    then have "length r = length (columns df)"
      using assms(1) by (simp add: well_formed_def list_all_iff)
    from drop_cells_kept[OF this assms(2) Some] j
    show "cell_at (map snd (filter (\<lambda>(c, v). c \<notin> set ns) (zip (columns df) r))) j = cell_at r i"
      by simp
  qed
  with Some j show ?thesis by (simp add: get_col_def drop_columns_def comp_def)
qed

lemma path_join_file:
  "d \<noteq> [] \<Longrightarrow> path_join d ''forecast_data.csv'' =
     (if last d = CHR ''/'' then d else d @ ''/'') @ ''forecast_data.csv''"
  by (simp add: path_join_def)

text \<open>
  C9. For a non-empty table: without a directory (\<^verbatim>\<open>None\<close> or the empty string) the export
  raises a value error and the world is as before. With a directory whose creation does
  not raise, the calls are the creation of the directory and one write, to the file
  \<^verbatim>\<open>forecast_data.csv\<close> in that directory, with \<^verbatim>\<open>index=False\<close>, of the table without
  the column \<^verbatim>\<open>_sa_instance_state\<close>; the export returns what the write returns. The
  other columns keep their labels, their order and (in a well-formed table) their cells,
  and a well-formed table without that column is written as it is.
\<close>

theorem csv_export:
  assumes "\<not> df_empty forecasts"
  shows "(csv_dir = None \<or> csv_dir = Some [] \<longrightarrow>
            (\<exists>msg. save_forecasts_to_csv forecasts csv_dir w = (Inl (ValueError msg), forecasts, w)))
       \<and> (\<forall>d. csv_dir = Some d \<and> d \<noteq> [] \<and> raises w (calls w) (Makedirs d) = None \<longrightarrow>
            new_calls w (snd (snd (save_forecasts_to_csv forecasts csv_dir w))) =
              [Makedirs d,
               ToCsv ((if last d = CHR ''/'' then d else d @ ''/'') @ ''forecast_data.csv'')
                 (drop_columns forecasts [''_sa_instance_state'']) False]
            \<and> fst (save_forecasts_to_csv forecasts csv_dir w) =
                (case raises w (calls w @ [Makedirs d])
                        (ToCsv ((if last d = CHR ''/'' then d else d @ ''/'') @ ''forecast_data.csv'')
                           (drop_columns forecasts [''_sa_instance_state'']) False) of
                   None \<Rightarrow> Inr () | Some e \<Rightarrow> Inl e))
       \<and> columns (drop_columns forecasts [''_sa_instance_state'']) =
           filter (\<lambda>c. c \<noteq> ''_sa_instance_state'') (columns forecasts)
       \<and> (well_formed forecasts \<longrightarrow>
            (\<forall>c. c \<noteq> ''_sa_instance_state'' \<longrightarrow>
               get_col (drop_columns forecasts [''_sa_instance_state'']) c = get_col forecasts c))
       \<and> (well_formed forecasts \<and> ''_sa_instance_state'' \<notin> set (columns forecasts) \<longrightarrow>
            drop_columns forecasts [''_sa_instance_state''] = forecasts)"
proof -
  have a: "csv_dir = None \<or> csv_dir = Some [] \<longrightarrow>
            (\<exists>msg. save_forecasts_to_csv forecasts csv_dir w = (Inl (ValueError msg), forecasts, w))"
    using assms by (auto simp: save_forecasts_to_csv_def)
  have b: "\<forall>d. csv_dir = Some d \<and> d \<noteq> [] \<and> raises w (calls w) (Makedirs d) = None \<longrightarrow>
            new_calls w (snd (snd (save_forecasts_to_csv forecasts csv_dir w))) =
              [Makedirs d,
               ToCsv ((if last d = CHR ''/'' then d else d @ ''/'') @ ''forecast_data.csv'')
                 (drop_columns forecasts [''_sa_instance_state'']) False]
            \<and> fst (save_forecasts_to_csv forecasts csv_dir w) =
                (case raises w (calls w @ [Makedirs d])
                        (ToCsv ((if last d = CHR ''/'' then d else d @ ''/'') @ ''forecast_data.csv'')
                           (drop_columns forecasts [''_sa_instance_state'']) False) of
                   None \<Rightarrow> Inr () | Some e \<Rightarrow> Inl e)"
    using assms
    by (auto simp: save_forecasts_to_csv_def ext_def new_calls_def Let_def path_join_file
        split: option.splits)
  have c: "columns (drop_columns forecasts [''_sa_instance_state'']) =
           filter (\<lambda>c. c \<noteq> ''_sa_instance_state'') (columns forecasts)"
    by (simp add: drop_columns_labels)
  have d: "well_formed forecasts \<longrightarrow>
            (\<forall>c. c \<noteq> ''_sa_instance_state'' \<longrightarrow>
               get_col (drop_columns forecasts [''_sa_instance_state'']) c = get_col forecasts c)"
    by (simp add: drop_columns_get_col)
  have e: "well_formed forecasts \<and> ''_sa_instance_state'' \<notin> set (columns forecasts) \<longrightarrow>
            drop_columns forecasts [''_sa_instance_state''] = forecasts"
    by (simp add: drop_columns_absent)
  from a b c d e show ?thesis by blast
qed


theorem csv_export_witness:
  "\<not> df_empty sample_forecast
   \<and> new_calls world0 (snd (snd (save_forecasts_to_csv sample_forecast (Some ''out'') world0))) =
       [Makedirs ''out'',
        ToCsv ''out/forecast_data.csv''
          \<lparr>columns = [''target_datetime_utc'', ''solar_generation_kw''],
           rows = [[Time 1700000100000000000, Num 5], [Time 1700000190000000000, Num 6]]\<rparr> False]
   \<and> fst (save_forecasts_to_csv sample_forecast (Some ''out'') world0) = Inr ()
   \<and> fst (save_forecasts_to_csv sample_forecast None world0) =
       Inl (ValueError ''CSV directory is not provided for CSV saving.'')
   \<and> calls (snd (snd (save_forecasts_to_csv sample_forecast None world0))) = []"
proof -
  have ne: "\<not> df_empty sample_forecast" by (simp add: df_empty_def sample_forecast_def)
  have dr: "drop_columns sample_forecast [''_sa_instance_state''] =
          \<lparr>columns = [''target_datetime_utc'', ''solar_generation_kw''],
           rows = [[Time 1700000100000000000, Num 5], [Time 1700000190000000000, Num 6]]\<rparr>"
    by (simp add: drop_columns_def sample_forecast_def)
  have h: "raises world0 (calls world0) (Makedirs ''out'') = None" by (simp add: world0_def)
  from csv_export[OF ne, of "Some ''out''" world0] h dr
  have a: "new_calls world0 (snd (snd (save_forecasts_to_csv sample_forecast (Some ''out'') world0))) =
       [Makedirs ''out'',
        ToCsv ''out/forecast_data.csv''
          \<lparr>columns = [''target_datetime_utc'', ''solar_generation_kw''],
           rows = [[Time 1700000100000000000, Num 5], [Time 1700000190000000000, Num 6]]\<rparr> False]
     \<and> fst (save_forecasts_to_csv sample_forecast (Some ''out'') world0) = Inr ()"
    by (simp add: world0_def)
  from csv_export[OF ne, of None world0]
  have "\<exists>msg. save_forecasts_to_csv sample_forecast None world0 = (Inl (ValueError msg), sample_forecast, world0)"
    by simp
  then have b: "calls (snd (snd (save_forecasts_to_csv sample_forecast None world0))) = []"
    by (auto simp: world0_def)
  have c: "fst (save_forecasts_to_csv sample_forecast None world0) =
       Inl (ValueError ''CSV directory is not provided for CSV saving.'')"
    using ne by (simp add: save_forecasts_to_csv_def)
  from ne a b c show ?thesis by simp
qed

lemma rename_columns_two:
  "a \<noteq> b \<Longrightarrow> rename_columns df [(a, a'), (b, b')] =
     df\<lparr>columns := map (\<lambda>c. if c = a then a' else if c = b then b' else c) (columns df)\<rparr>"
  by (auto simp: rename_columns_def)

text \<open>
  C10. When the forecast-table save (country "nl") gets past the site resolution, the
  caller's table comes back with \<^verbatim>\<open>solar_generation_kw\<close> renamed to
  \<^verbatim>\<open>forecast_power_kw\<close> and \<^verbatim>\<open>target_datetime_utc\<close> to \<^verbatim>\<open>start_utc\<close>, its rows
  untouched, whatever happens afterwards. When the CSV export of a non-empty table gets
  past the creation of the directory, the caller's table comes back without the column
  \<^verbatim>\<open>_sa_instance_state\<close>.
\<close>

theorem caller_table_mutated_in_place:
  "(\<forall>site w1. get_or_create_pvsite w nl_national ''nl'' None = (Inr site, w1) \<longrightarrow>
       fst (snd (save_forecasts_to_site_db forecast_data w model_tag model_version ''nl'')) =
         forecast_data\<lparr>columns :=
           map (\<lambda>c. if c = ''solar_generation_kw'' then ''forecast_power_kw''
                     else if c = ''target_datetime_utc'' then ''start_utc'' else c)
               (columns forecast_data)\<rparr>)
   \<and> (\<forall>d. \<not> df_empty forecasts \<and> d \<noteq> [] \<and> raises w (calls w) (Makedirs d) = None \<longrightarrow>
       fst (snd (save_forecasts_to_csv forecasts (Some d) w)) =
         drop_columns forecasts [''_sa_instance_state'']
       \<and> ''_sa_instance_state'' \<notin> set (columns (drop_columns forecasts [''_sa_instance_state''])))"
proof -
  have a: "\<forall>site w1. get_or_create_pvsite w nl_national ''nl'' None = (Inr site, w1) \<longrightarrow>
       fst (snd (save_forecasts_to_site_db forecast_data w model_tag model_version ''nl'')) =
         forecast_data\<lparr>columns :=
           map (\<lambda>c. if c = ''solar_generation_kw'' then ''forecast_power_kw''
                     else if c = ''target_datetime_utc'' then ''start_utc'' else c)
               (columns forecast_data)\<rparr>"
    by (auto simp: save_forecasts_to_site_db_def Let_def rename_columns_two
        split: sum.splits prod.splits)
  have b: "\<forall>d. \<not> df_empty forecasts \<and> d \<noteq> [] \<and> raises w (calls w) (Makedirs d) = None \<longrightarrow>
       fst (snd (save_forecasts_to_csv forecasts (Some d) w)) =
         drop_columns forecasts [''_sa_instance_state'']
       \<and> ''_sa_instance_state'' \<notin> set (columns (drop_columns forecasts [''_sa_instance_state'']))"
    by (auto simp: save_forecasts_to_csv_def ext_def Let_def drop_columns_labels split: option.splits prod.splits)
  from a b show ?thesis by blast
qed

theorem caller_table_mutated_witness:
  "fst (snd (save_forecasts_to_site_db sample_forecast world0 ''m'' ''v1'' ''nl'')) =
     \<lparr>columns = [''start_utc'', ''forecast_power_kw'', ''_sa_instance_state''],
      rows = [[Time 1700000100000000000, Num 5, Str ''state''],
              [Time 1700000190000000000, Num 6, Str ''state'']]\<rparr>
   \<and> fst (snd (save_forecasts_to_csv sample_forecast (Some ''out'') world0)) =
     \<lparr>columns = [''target_datetime_utc'', ''solar_generation_kw''],
      rows = [[Time 1700000100000000000, Num 5], [Time 1700000190000000000, Num 6]]\<rparr>"
proof -
  let ?r = "get_or_create_pvsite world0 nl_national ''nl'' None"
  have "\<exists>site. fst ?r = Inr site" by (simp add: run_defs nl_national_def)
  then obtain site where "?r = (Inr site, snd ?r)" by (metis prod.collapse)
  moreover have ne: "\<not> df_empty sample_forecast" by (simp add: df_empty_def sample_forecast_def)
  moreover have "raises world0 (calls world0) (Makedirs ''out'') = None" by (simp add: world0_def)
  moreover have "drop_columns sample_forecast [''_sa_instance_state''] =
          \<lparr>columns = [''target_datetime_utc'', ''solar_generation_kw''],
           rows = [[Time 1700000100000000000, Num 5], [Time 1700000190000000000, Num 6]]\<rparr>"
    by (simp add: drop_columns_def sample_forecast_def)
  ultimately show ?thesis
    using caller_table_mutated_in_place[of world0 sample_forecast "''m''" "''v1''" sample_forecast]
    by (auto simp: sample_forecast_def)
qed

section \<open>Float arithmetic\<close>

text \<open>
  Rounding to a float moves a number by at most half a unit in the last place, a relative
  error of at most \<open>2 ^ -53\<close>, and leaves every integer below \<open>2 ^ 53\<close> in absolute value as
  it is.
\<close>

lemma round_half_even_error: "\<bar>of_int (round_half_even x) - x\<bar> \<le> 1 / 2"
proof -
  let ?n = "\<lfloor>x\<rfloor>"
  let ?f = "x - of_int ?n"
  have f: "0 \<le> ?f" "?f < 1" by linarith+
  consider "?f < 1 / 2" | "1 / 2 < ?f" | "?f = 1 / 2" by linarith
  then show ?thesis
  proof cases
    case 1
    then have "round_half_even x = ?n" by (simp add: round_half_even_def Let_def)
    with 1 f show ?thesis by simp
  next
    case 2
    then have "round_half_even x = ?n + 1" by (simp add: round_half_even_def Let_def)
    with 2 f show ?thesis by simp
  next
    case 3
    then have "round_half_even x = ?n \<or> round_half_even x = ?n + 1"
      by (simp add: round_half_even_def Let_def)
    with 3 show ?thesis by auto
  qed
qed

lemma ilog2_lower:
  assumes "0 < q"
  shows "2 powi (ilog2 q) \<le> q"
proof -
  obtain a b where ab: "quotient_of q = (a, b)" by (cases "quotient_of q") auto
  have b: "0 < b" using quotient_of_denom_pos[OF ab] .
  have q: "q = of_int a / of_int b" using quotient_of_div[OF ab] .
  have a: "0 < a" using assms b q by (simp add: zero_less_divide_iff)
  let ?e = "bitlen a - bitlen b"
  show ?thesis
  proof (cases "2 powi ?e \<le> q")
    case True
    then show ?thesis by (simp add: ilog2_def ab)
  next
    case False
    have la: "(2::rat) ^ nat (bitlen a - 1) \<le> of_int a"
      using bitlen_bounds[OF a] by (metis of_int_le_iff of_int_numeral of_int_power)
    have lb: "of_int b < (2::rat) ^ nat (bitlen b)"
      using bitlen_bounds[OF b] by (metis of_int_less_iff of_int_numeral of_int_power)
    have pa: "1 \<le> bitlen a" using a bitlen_eq_zero_iff[of a] bitlen_nonneg[of a] by linarith
    have pb: "0 \<le> bitlen b" by (rule bitlen_nonneg)
    have e1: "?e - 1 = (bitlen a - 1) - bitlen b" by simp
    have d: "(2::rat) powi ((bitlen a - 1) - bitlen b) = 2 powi (bitlen a - 1) / 2 powi bitlen b"
      by (rule power_int_diff) simp
    have n1: "(2::rat) powi (bitlen a - 1) = 2 ^ nat (bitlen a - 1)"
      using pa by (simp add: power_int_def)
    have n2: "(2::rat) powi bitlen b = 2 ^ nat (bitlen b)"
      using pb by (simp add: power_int_def)
    have "(2::rat) powi (?e - 1) = 2 ^ nat (bitlen a - 1) / 2 ^ nat (bitlen b)"
      unfolding e1 d n1 n2 by (rule refl)
    also have "\<dots> \<le> of_int a / 2 ^ nat (bitlen b)"
      using la by (simp add: divide_right_mono)
    also have "\<dots> \<le> of_int a / of_int b"
      using lb a b by (simp add: frac_le)
    finally have "(2::rat) powi (?e - 1) \<le> of_int a / of_int b" .
    moreover have "ilog2 q = ?e - 1" using False by (simp add: ilog2_def ab)
    ultimately show ?thesis unfolding q[symmetric] by simp
  qed
qed

lemma round_double_error: "\<bar>round_double q - q\<bar> \<le> \<bar>q\<bar> / 2 ^ 53"
proof (cases "q = 0")
  case True
  then show ?thesis by (simp add: round_double_def)
next
  case False
  let ?e = "ilog2 \<bar>q\<bar>"
  let ?u = "(2::rat) powi (?e - 52)"
  let ?m = "round_half_even (\<bar>q\<bar> / ?u)"
  have up: "0 < ?u" by simp
  have rd: "round_double q = sgn q * of_int ?m * ?u"
    using False by (simp add: round_double_def Let_def)
  have "sgn q * \<bar>q\<bar> = q" by (rule mult_sgn_abs)
  then have "round_double q - q = sgn q * (of_int ?m * ?u - \<bar>q\<bar>)"
    unfolding rd by (simp add: right_diff_distrib mult.assoc)
  then have "\<bar>round_double q - q\<bar> = \<bar>of_int ?m * ?u - \<bar>q\<bar>\<bar>"
    using False by (simp add: abs_mult)
  also have "of_int ?m * ?u - \<bar>q\<bar> = (of_int ?m - \<bar>q\<bar> / ?u) * ?u"
    using up by (simp add: field_simps)
  also have "\<bar>(of_int ?m - \<bar>q\<bar> / ?u) * ?u\<bar> \<le> (1 / 2) * ?u"
    using round_half_even_error[of "\<bar>q\<bar> / ?u"] up
    by (simp add: abs_mult mult_right_mono)
  also have "(1 / 2) * ?u = 2 powi ?e / 2 ^ 53"
    by (simp add: power_int_diff)
  also have "\<dots> \<le> \<bar>q\<bar> / 2 ^ 53"
    using ilog2_lower[of "\<bar>q\<bar>"] False by (simp add: divide_right_mono)
  finally show ?thesis .
qed

lemma round_double_step:
  assumes "\<bar>y - x\<bar> \<le> \<bar>x\<bar> * r" and "0 \<le> r"
  shows "\<bar>round_double y - x\<bar> \<le> \<bar>x\<bar> * (r + 1 / 2 ^ 53 + r / 2 ^ 53)"
proof -
  have y: "\<bar>y\<bar> \<le> \<bar>x\<bar> + \<bar>x\<bar> * r" using assms(1) by linarith
  have "\<bar>round_double y - y\<bar> \<le> \<bar>y\<bar> / 2 ^ 53" by (rule round_double_error)
  also have "\<dots> \<le> (\<bar>x\<bar> + \<bar>x\<bar> * r) / 2 ^ 53" using y by (simp add: divide_right_mono)
  finally have "\<bar>round_double y - y\<bar> \<le> (\<bar>x\<bar> + \<bar>x\<bar> * r) / 2 ^ 53" .
  with assms(1) have "\<bar>round_double y - x\<bar> \<le> \<bar>x\<bar> * r + (\<bar>x\<bar> + \<bar>x\<bar> * r) / 2 ^ 53" by linarith
  also have "\<dots> = \<bar>x\<bar> * (r + 1 / 2 ^ 53 + r / 2 ^ 53)" by (simp add: field_simps)
  finally show ?thesis .
qed

lemma float_minutes_error:
  fixes d :: int
  defines "x \<equiv> (of_int d :: rat) / 60000000000"
  shows "\<bar>fdiv (fdiv (round_double (of_int d)) 1000000000) 60 - x\<bar> \<le> \<bar>x\<bar> / 2 ^ 51"
proof -
  let ?u = "1 / (2::rat) ^ 53"
  have s1: "\<bar>round_double (of_int d) - of_int d\<bar> \<le> \<bar>of_int d\<bar> * ?u"
    using round_double_error[of "of_int d"] by simp
  let ?a = "round_double (of_int d)"
  have s1': "\<bar>?a / 1000000000 - of_int d / 1000000000\<bar> \<le> \<bar>of_int d / 1000000000\<bar> * ?u"
  proof -
    have "\<bar>?a / 1000000000 - of_int d / 1000000000\<bar> = \<bar>?a - of_int d\<bar> / 1000000000"
      by (simp add: abs_divide flip: diff_divide_distrib)
    also have "\<dots> \<le> (\<bar>of_int d\<bar> * ?u) / 1000000000" using s1 by (simp add: divide_right_mono)
    finally show ?thesis by simp
  qed
  let ?r2 = "?u + 1 / 2 ^ 53 + ?u / 2 ^ 53"
  let ?b = "fdiv ?a 1000000000"
  have f2: "?b = round_double (?a / 1000000000)" by (rule fdiv_def)
  have s2: "\<bar>?b - of_int d / 1000000000\<bar> \<le> \<bar>of_int d / 1000000000\<bar> * ?r2"
    unfolding f2 by (rule round_double_step[OF s1']) simp
  have s2': "\<bar>?b / 60 - x\<bar> \<le> \<bar>x\<bar> * ?r2"
  proof -
    have eq: "?b / 60 - x = (?b - of_int d / 1000000000) / 60"
      by (simp add: x_def diff_divide_distrib)
    have "\<bar>?b / 60 - x\<bar> = \<bar>?b - of_int d / 1000000000\<bar> / 60"
      unfolding eq by simp
    also have "\<dots> \<le> (\<bar>of_int d / 1000000000\<bar> * ?r2) / 60" using s2 by (simp add: divide_right_mono)
    also have "\<dots> = \<bar>x\<bar> * ?r2" by (simp add: x_def abs_divide)
    finally show ?thesis .
  qed
  have nn: "0 \<le> ?r2" by simp
  have f3: "fdiv ?b 60 = round_double (?b / 60)" by (rule fdiv_def)
  have s3: "\<bar>fdiv ?b 60 - x\<bar> \<le> \<bar>x\<bar> * (?r2 + 1 / 2 ^ 53 + ?r2 / 2 ^ 53)"
    unfolding f3 by (rule round_double_step[OF s2' nn])
  have "?r2 + 1 / 2 ^ 53 + ?r2 / 2 ^ 53 \<le> 1 / (2::rat) ^ 51" by simp
  then have "\<bar>x\<bar> * (?r2 + 1 / 2 ^ 53 + ?r2 / 2 ^ 53) \<le> \<bar>x\<bar> * (1 / 2 ^ 51)"
    by (rule mult_left_mono) simp
  with s3 show ?thesis by simp
qed


lemma round_half_even_int: "round_half_even (of_int m) = m"
  by (simp add: round_half_even_def)

lemma round_double_int:
  assumes "\<bar>n\<bar> < 2 ^ 53"
  shows "round_double (of_int n) = of_int n"
proof (cases "n = 0")
  case True
  then show ?thesis by (simp add: round_double_def)
next
  case False
  let ?q = "of_int n :: rat"
  let ?e = "ilog2 \<bar>?q\<bar>"
  have pos: "0 < \<bar>?q\<bar>" using False by simp
  have "\<bar>?q\<bar> < 2 ^ 53" using assms by (metis of_int_abs of_int_less_iff of_int_numeral of_int_power)
  with ilog2_lower[OF pos] have lt: "(2::rat) powi ?e < 2 powi 53" by simp
  have e: "?e \<le> 52"
  proof (rule ccontr)
    assume "\<not> ?e \<le> 52"
    then have "53 \<le> ?e" by simp
    then have "(2::rat) powi 53 \<le> 2 powi ?e" by (intro power_int_increasing) simp_all
    with lt show False by simp
  qed
  define k where "k = nat (52 - ?e)"
  have ek: "?e - 52 = - int k" using e by (simp add: k_def)
  have ulp: "(2::rat) powi (?e - 52) = 1 / 2 ^ k"
    unfolding ek by (simp add: power_int_minus divide_inverse)
  have m: "\<bar>?q\<bar> / (1 / 2 ^ k) = of_int (\<bar>n\<bar> * 2 ^ k)"
    by simp
  have "round_double ?q = sgn ?q * of_int (round_half_even (\<bar>?q\<bar> / (2 powi (?e - 52)))) * (2 powi (?e - 52))"
    using False by (simp add: round_double_def Let_def)
  also have "\<dots> = sgn ?q * of_int (\<bar>n\<bar> * 2 ^ k) * (1 / 2 ^ k)"
    unfolding ulp m round_half_even_int by (rule refl)
  also have "\<dots> = sgn ?q * \<bar>?q\<bar>" by simp
  also have "\<dots> = ?q" by (rule mult_sgn_abs)
  finally show ?thesis .
qed

lemma float_minutes_whole_seconds:
  assumes "\<bar>d\<bar> < 2 ^ 53" and "1000000000 dvd d"
  shows "fdiv (fdiv (round_double (of_int d)) 1000000000) 60 = round_double (of_int d / 60000000000)"
proof -
  from assms(2) obtain s where s: "d = 1000000000 * s" by (auto elim: dvdE)
  have "\<bar>s\<bar> \<le> \<bar>d\<bar>" unfolding s by (simp add: abs_mult)
  with assms(1) have sb: "\<bar>s\<bar> < 2 ^ 53" by simp
  have "fdiv (round_double (of_int d)) 1000000000 = round_double (of_int d / 1000000000)"
    unfolding round_double_int[OF assms(1)] by (rule fdiv_def)
  also have "of_int d / 1000000000 = (of_int s :: rat)" by (simp add: s)
  also have "round_double (of_int s) = of_int s" by (rule round_double_int[OF sb])
  finally have a: "fdiv (round_double (of_int d)) 1000000000 = of_int s" .
  have b: "(of_int s :: rat) / 60 = of_int d / 60000000000" by (simp add: s)
  have "fdiv (fdiv (round_double (of_int d)) 1000000000) 60 =
        round_double (fdiv (round_double (of_int d)) 1000000000 / 60)" by (rule fdiv_def)
  also have "\<dots> = round_double (of_int d / 60000000000)" unfolding a b by (rule refl)
  finally show ?thesis .
qed

lemma float_minutes_whole_minutes:
  assumes "\<bar>d\<bar> < 2 ^ 53" and "60000000000 dvd d"
  shows "fdiv (fdiv (round_double (of_int d)) 1000000000) 60 = of_int d / 60000000000"
proof -
  from assms(2) obtain k where k: "d = 60000000000 * k" by (auto elim: dvdE)
  have "\<bar>k\<bar> \<le> \<bar>d\<bar>" unfolding k by (simp add: abs_mult)
  with assms(1) have kb: "\<bar>k\<bar> < 2 ^ 53" by simp
  have "(1000000000::int) dvd d" unfolding k by simp
  from float_minutes_whole_seconds[OF assms(1) this]
  have "fdiv (fdiv (round_double (of_int d)) 1000000000) 60 = round_double (of_int d / 60000000000)" .
  also have "of_int d / 60000000000 = (of_int k :: rat)" by (simp add: k)
  also have "round_double (of_int k) = of_int k" by (rule round_double_int[OF kb])
  also have "(of_int k :: rat) = of_int d / 60000000000" by (simp add: k)
  finally show ?thesis .
qed

lemma float_minutes_sign:
  "fdiv (fdiv (round_double (of_int d)) 1000000000) 60 < 0 \<longleftrightarrow> d < 0"
proof -
  let ?q = "fdiv (fdiv (round_double (of_int d)) 1000000000) 60"
  let ?x = "of_int d / 60000000000 :: rat"
  have b: "\<bar>?q - ?x\<bar> \<le> \<bar>?x\<bar> / 2 ^ 51" by (rule float_minutes_error)
  have h: "\<bar>?x\<bar> / 2 ^ 51 \<le> \<bar>?x\<bar> / 2" by simp
  have x: "?x < 0 \<longleftrightarrow> d < 0" by simp
  have "?q < 0 \<longleftrightarrow> ?x < 0" using b h by linarith
  with x show ?thesis by simp
qed

lemma sample_horizon_values:
  "fdiv (fdiv (round_double 0) 1000000000) 60 = 0"
  "fdiv (fdiv (round_double 90000000000) 1000000000) 60 = 3 / 2"
  "fdiv (fdiv (round_double (- 900000000000)) 1000000000) 60 = - 15"
  "fdiv (fdiv (round_double (- 100000000000)) 1000000000) 60 = - (7505999378950827 / 4503599627370496)"
  "fdiv (fdiv (round_double 100000000000) 1000000000) 60 = 7505999378950827 / 4503599627370496"
  "fdiv (fdiv (round_double 123456789) 1000000000) 60 = 1186133224398417 / 576460752303423488"
  "round_double (5 / 3) = 7505999378950827 / 4503599627370496"
  by code_simp+

section \<open>Forecast rows\<close>

lemma traverse_all2: "traverse f xs = Inr ys \<Longrightarrow> list_all2 (\<lambda>x y. f x = Inr y) xs ys"
  by (induction xs arbitrary: ys) (auto split: sum.splits)

lemma map_fst_zip_fun: "length ys = length xs \<Longrightarrow> map (\<lambda>x. f (fst x)) (zip xs ys) = map f xs"
proof -
  assume "length ys = length xs"
  then have "map fst (zip xs ys) = xs" by simp
  then have "map f (map fst (zip xs ys)) = map f xs" by simp
  then show ?thesis by (simp add: comp_def)
qed

lemma cell_at_Cons [simp]:
  "cell_at (x # xs) 0 = x" "cell_at (x # xs) (Suc n) = cell_at xs n" "cell_at [] n = NaN"
  by (simp_all add: cell_at_def)

lemma select_two:
  assumes "select_columns d [a, b] = Inr fd"
  shows "\<exists>i j. col_index (columns d) a = Some i \<and> col_index (columns d) b = Some j
          \<and> fd = \<lparr>columns = [a, b], rows = map (\<lambda>r. [cell_at r i, cell_at r j]) (rows d)\<rparr>"
  using assms by (auto simp: select_columns_def split: option.splits if_splits)

lemma reshape_forecast_rows:
  assumes "reshape_forecast ts d = Inr fd"
  shows "columns fd = [''forecast_power_kw'', ''start_utc'', ''end_utc'', ''horizon_minutes'']
       \<and> (\<exists>powers starts.
             get_col d ''forecast_power_kw'' = Inr powers \<and> get_col d ''start_utc'' = Inr starts
           \<and> list_all2 (\<lambda>(p, s) row. \<exists>e h. row = [p, s, e, h]
                          \<and> add_timedelta quarter_hour s = Inr e \<and> horizon_minutes ts s = Inr h)
               (zip powers starts) (rows fd))"
proof -
  from assms obtain fd0 where sel: "select_columns d [''forecast_power_kw'', ''start_utc''] = Inr fd0"
    by (auto simp: reshape_forecast_def split: sum.splits)
  from select_two[OF sel] obtain i j where ij:
    "col_index (columns d) ''forecast_power_kw'' = Some i" "col_index (columns d) ''start_utc'' = Some j"
    "fd0 = \<lparr>columns = [''forecast_power_kw'', ''start_utc''],
            rows = map (\<lambda>r. [cell_at r i, cell_at r j]) (rows d)\<rparr>" by blast
  let ?starts = "map (\<lambda>r. cell_at r j) (rows d)"
  let ?powers = "map (\<lambda>r. cell_at r i) (rows d)"
  have g0: "get_col fd0 ''start_utc'' = Inr ?starts"
    by (simp add: ij(3) get_col_def comp_def)
  from assms sel g0 obtain ends where ends: "traverse (add_timedelta quarter_hour) ?starts = Inr ends"
    by (auto simp: reshape_forecast_def split: sum.splits)
  have le: "length ends = length (rows d)" using traverse_all2[OF ends] by (auto dest: list_all2_lengthD)
  let ?fd1 = "set_col fd0 ''end_utc'' ends"
  have fd1: "?fd1 = \<lparr>columns = [''forecast_power_kw'', ''start_utc'', ''end_utc''],
                     rows = map (\<lambda>(r, e). [cell_at r i, cell_at r j, e]) (zip (rows d) ends)\<rparr>"
    by (simp add: ij(3) set_col_def zip_map1 case_prod_unfold comp_def)
  have g1: "get_col ?fd1 ''start_utc'' = Inr ?starts"
    unfolding fd1 using le map_fst_zip_fun[of ends "rows d" "\<lambda>r. cell_at r j"]
    by (simp add: get_col_def comp_def case_prod_unfold)
  from assms sel g0 ends g1 obtain hs where hs: "traverse (horizon_minutes ts) ?starts = Inr hs"
    and fd: "fd = set_col ?fd1 ''horizon_minutes'' hs"
    by (auto simp: reshape_forecast_def Let_def split: sum.splits)
  have lh: "length hs = length (rows d)" using traverse_all2[OF hs] by (auto dest: list_all2_lengthD)
  have fdr: "fd = \<lparr>columns = [''forecast_power_kw'', ''start_utc'', ''end_utc'', ''horizon_minutes''],
                   rows = map (\<lambda>((r, e), h). [cell_at r i, cell_at r j, e, h]) (zip (zip (rows d) ends) hs)\<rparr>"
    unfolding fd fd1 by (simp add: set_col_def zip_map1 case_prod_unfold comp_def)
  have "list_all2 (\<lambda>(p, s) row. \<exists>e h. row = [p, s, e, h]
                          \<and> add_timedelta quarter_hour s = Inr e \<and> horizon_minutes ts s = Inr h)
               (zip ?powers ?starts) (rows fd)"
    using le lh traverse_all2[OF ends] traverse_all2[OF hs]
    by (auto simp: fdr list_all2_conv_all_nth)
  moreover have "get_col d ''forecast_power_kw'' = Inr ?powers" "get_col d ''start_utc'' = Inr ?starts"
    using ij by (simp_all add: get_col_def)
  ultimately show ?thesis using fdr by auto
qed


lemma gocp_calls_kind:
  assumes "get_or_create_pvsite w p country ov = (r, w1)"
  shows "\<exists>cs. calls w1 = calls w @ cs
           \<and> (\<forall>c \<in> set cs. (\<exists>n m. c = GetSite n m) \<or> (\<exists>s. c = CreateSite s))
           \<and> clock w1 = clock w \<and> raises w1 = raises w \<and> parse_datetime w1 = parse_datetime w"
  using assms
  by (auto simp: get_or_create_pvsite_def get_site_by_client_site_name_def create_site_def ext_def Let_def
      split: option.splits sum.splits prod.splits if_splits)

lemma forecast_insert_shape:
  assumes "save_forecasts_to_site_db forecast_data w model_tag model_version country = (r, df', w')"
    and "InsertForecast fd meta tag ver \<in> set (new_calls w w')"
  shows "country = ''nl'' \<and> timestamp_utc meta = floor15 (clock w)
       \<and> forecast_version meta = model_version \<and> tag = model_tag \<and> ver = model_version
       \<and> reshape_forecast (floor15 (clock w))
            (rename_columns forecast_data
               [(''solar_generation_kw'', ''forecast_power_kw''),
                (''target_datetime_utc'', ''start_utc'')]) = Inr fd"
proof -
  have nl: "country = ''nl''"
    using assms by (auto simp: save_forecasts_to_site_db_def new_calls_def split: if_splits)
  obtain r1 w1 where g: "get_or_create_pvsite w nl_national country None = (r1, w1)"
    by (cases "get_or_create_pvsite w nl_national country None") auto
  from gocp_calls_kind[OF g] obtain cs where cs: "calls w1 = calls w @ cs"
    "\<forall>c \<in> set cs. (\<exists>n m. c = GetSite n m) \<or> (\<exists>s. c = CreateSite s)" "clock w1 = clock w"
    by blast
  have no: "InsertForecast fd meta tag ver \<notin> set cs" using cs(2) by auto
  show ?thesis
    using assms nl g cs(1,3) no
    by (auto simp: save_forecasts_to_site_db_def new_calls_def Let_def ext_def
        split: sum.splits prod.splits option.splits)
qed

lemma floor15_bounds:
  "floor15 t mod 900000000000 = 0 \<and> floor15 t \<le> t \<and> t < floor15 t + 900000000000"
proof -
  have "0 \<le> t mod 900000000000" "t mod 900000000000 < 900000000000" by simp_all
  moreover have "(t - t mod 900000000000) mod 900000000000 = 0" by (simp add: minus_mod_eq_mult_div)
  ultimately show ?thesis by (simp add: floor15_def quarter_hour_def)
qed

lemma forecast_rows:
  assumes "save_forecasts_to_site_db forecast_data w model_tag model_version country = (r, df', w')"
    and "InsertForecast fd meta tag ver \<in> set (new_calls w w')"
  shows "columns fd = [''forecast_power_kw'', ''start_utc'', ''end_utc'', ''horizon_minutes'']
       \<and> (\<exists>starts.
            get_col (rename_columns forecast_data
               [(''solar_generation_kw'', ''forecast_power_kw''),
                (''target_datetime_utc'', ''start_utc'')]) ''start_utc'' = Inr starts
          \<and> list_all2 (\<lambda>s row. \<exists>p e h. row = [p, s, e, h]
                 \<and> add_timedelta quarter_hour s = Inr e
                 \<and> horizon_minutes (timestamp_utc meta) s = Inr h) starts (rows fd))"
proof -
  let ?d = "rename_columns forecast_data
               [(''solar_generation_kw'', ''forecast_power_kw''),
                (''target_datetime_utc'', ''start_utc'')]"
  from forecast_insert_shape[OF assms]
  have ts: "timestamp_utc meta = floor15 (clock w)"
    and rs: "reshape_forecast (floor15 (clock w)) ?d = Inr fd" by simp_all
  from reshape_forecast_rows[OF rs] obtain powers starts where ps:
    "columns fd = [''forecast_power_kw'', ''start_utc'', ''end_utc'', ''horizon_minutes'']"
    "get_col ?d ''forecast_power_kw'' = Inr powers" "get_col ?d ''start_utc'' = Inr starts"
    "list_all2 (\<lambda>(p, s) row. \<exists>e h. row = [p, s, e, h]
                          \<and> add_timedelta quarter_hour s = Inr e
                          \<and> horizon_minutes (floor15 (clock w)) s = Inr h)
               (zip powers starts) (rows fd)" by blast
  have len: "length powers = length starts"
    using ps(2,3) by (auto simp: get_col_def split: option.splits)
  have "list_all2 (\<lambda>s row. \<exists>p e h. row = [p, s, e, h]
                 \<and> add_timedelta quarter_hour s = Inr e
                 \<and> horizon_minutes (timestamp_utc meta) s = Inr h) starts (rows fd)"
    using ps(4) len ts by (auto simp: list_all2_conv_all_nth)
  with ps(1,3) show ?thesis by blast
qed

text \<open>
  C6. The forecast insert of a forecast-table save receives one issuance timestamp, the
  clock floored to a multiple of 15 minutes (at most the clock, less than 15 minutes
  before it). Row by row, in the order of the input, the reshaped table holds the start
  of the input row and as horizon (start - issuance) in minutes: the float the two
  divisions of the code give for the difference in nanoseconds. That float is within a
  relative error of \<open>2 ^ -51\<close> of the exact number of minutes, negative when the start lies
  before the issuance time; when the difference is a whole number of seconds (less than
  \<open>2 ^ 53\<close> ns, some 104 days) it is the float nearest to the exact number of minutes, and
  when the difference is a whole number of minutes it is that number. A missing start
  gives a missing horizon.
\<close>

theorem forecast_horizon:
  assumes "save_forecasts_to_site_db forecast_data w model_tag model_version country = (r, df', w')"
    and "InsertForecast fd meta tag ver \<in> set (new_calls w w')"
  shows "timestamp_utc meta = floor15 (clock w)
       \<and> floor15 (clock w) mod 900000000000 = 0
       \<and> floor15 (clock w) \<le> clock w \<and> clock w < floor15 (clock w) + 900000000000
       \<and> (\<exists>starts.
            get_col (rename_columns forecast_data
               [(''solar_generation_kw'', ''forecast_power_kw''),
                (''target_datetime_utc'', ''start_utc'')]) ''start_utc'' = Inr starts
          \<and> list_all2 (\<lambda>s row. \<exists>p e h. row = [p, s, e, h]
                 \<and> ((\<exists>t q. s = Time t \<and> h = Num q
                       \<and> q = fdiv (fdiv (round_double (of_int (t - timestamp_utc meta))) 1000000000) 60
                       \<and> \<bar>q - of_int (t - timestamp_utc meta) / 60000000000\<bar>
                           \<le> \<bar>of_int (t - timestamp_utc meta) / 60000000000\<bar> / 2 ^ 51
                       \<and> (q < 0 \<longleftrightarrow> t < timestamp_utc meta)
                       \<and> (\<bar>t - timestamp_utc meta\<bar> < 2 ^ 53 \<and> 1000000000 dvd (t - timestamp_utc meta)
                            \<longrightarrow> q = round_double (of_int (t - timestamp_utc meta) / 60000000000))
                       \<and> (\<bar>t - timestamp_utc meta\<bar> < 2 ^ 53 \<and> 60000000000 dvd (t - timestamp_utc meta)
                            \<longrightarrow> q = of_int (t - timestamp_utc meta) / 60000000000))
                     \<or> (s = NaN \<and> h = NaN))) starts (rows fd))"
proof -
  let ?ts = "timestamp_utc meta"
  let ?P = "\<lambda>s h. (\<exists>t q. s = Time t \<and> h = Num q
                       \<and> q = fdiv (fdiv (round_double (of_int (t - ?ts))) 1000000000) 60
                       \<and> \<bar>q - of_int (t - ?ts) / 60000000000\<bar> \<le> \<bar>of_int (t - ?ts) / 60000000000\<bar> / 2 ^ 51
                       \<and> (q < 0 \<longleftrightarrow> t < ?ts)
                       \<and> (\<bar>t - ?ts\<bar> < 2 ^ 53 \<and> 1000000000 dvd (t - ?ts)
                            \<longrightarrow> q = round_double (of_int (t - ?ts) / 60000000000))
                       \<and> (\<bar>t - ?ts\<bar> < 2 ^ 53 \<and> 60000000000 dvd (t - ?ts)
                            \<longrightarrow> q = of_int (t - ?ts) / 60000000000))
                     \<or> (s = NaN \<and> h = NaN)"
  from forecast_rows[OF assms] obtain starts where st:
    "get_col (rename_columns forecast_data
               [(''solar_generation_kw'', ''forecast_power_kw''),
                (''target_datetime_utc'', ''start_utc'')]) ''start_utc'' = Inr starts"
    "list_all2 (\<lambda>s row. \<exists>p e h. row = [p, s, e, h]
                 \<and> add_timedelta quarter_hour s = Inr e
                 \<and> horizon_minutes ?ts s = Inr h) starts (rows fd)" by blast
  have cellwise: "?P s h" if h: "horizon_minutes ?ts s = Inr h" for s h
  proof (cases s)
    case (Time t)
    let ?q = "fdiv (fdiv (round_double (of_int (t - ?ts))) 1000000000) 60"
    have "h = Num ?q" using h Time by simp
    moreover have "\<bar>?q - of_int (t - ?ts) / 60000000000\<bar> \<le> \<bar>of_int (t - ?ts) / 60000000000\<bar> / 2 ^ 51"
      by (rule float_minutes_error)
    moreover have "?q < 0 \<longleftrightarrow> t < ?ts"
      using float_minutes_sign[of "t - ?ts"] by simp
    moreover have "\<bar>t - ?ts\<bar> < 2 ^ 53 \<and> 1000000000 dvd (t - ?ts)
                     \<longrightarrow> ?q = round_double (of_int (t - ?ts) / 60000000000)"
      using float_minutes_whole_seconds[of "t - ?ts"] by blast
    moreover have "\<bar>t - ?ts\<bar> < 2 ^ 53 \<and> 60000000000 dvd (t - ?ts)
                     \<longrightarrow> ?q = of_int (t - ?ts) / 60000000000"
      using float_minutes_whole_minutes[of "t - ?ts"] by blast
    ultimately show ?thesis using Time by blast
  qed (use h in auto)
  have "list_all2 (\<lambda>s row. \<exists>p e h. row = [p, s, e, h] \<and> ?P s h) starts (rows fd)"
    by (rule list_all2_mono[OF st(2)]) (use cellwise in blast)
  with st(1) forecast_insert_shape[OF assms] floor15_bounds[of "clock w"] show ?thesis by blast
qed

text \<open>
  C7. Row by row, in the order of the input, the reshaped table holds the start of the
  input row and as end that start plus 15 minutes (900,000,000,000 ns); a missing start
  gives a missing end, and no other start reaches the insert.
\<close>

theorem forecast_interval_end:
  assumes "save_forecasts_to_site_db forecast_data w model_tag model_version country = (r, df', w')"
    and "InsertForecast fd meta tag ver \<in> set (new_calls w w')"
  shows "columns fd = [''forecast_power_kw'', ''start_utc'', ''end_utc'', ''horizon_minutes'']
       \<and> (\<exists>starts.
            get_col (rename_columns forecast_data
               [(''solar_generation_kw'', ''forecast_power_kw''),
                (''target_datetime_utc'', ''start_utc'')]) ''start_utc'' = Inr starts
          \<and> list_all2 (\<lambda>s row. \<exists>p e h. row = [p, s, e, h]
                 \<and> ((\<exists>t. s = Time t \<and> e = Time (t + 900000000000)) \<or> (s = NaN \<and> e = NaN)))
               starts (rows fd))"
proof -
  from forecast_rows[OF assms] obtain starts where st:
    "columns fd = [''forecast_power_kw'', ''start_utc'', ''end_utc'', ''horizon_minutes'']"
    "get_col (rename_columns forecast_data
               [(''solar_generation_kw'', ''forecast_power_kw''),
                (''target_datetime_utc'', ''start_utc'')]) ''start_utc'' = Inr starts"
    "list_all2 (\<lambda>s row. \<exists>p e h. row = [p, s, e, h]
                 \<and> add_timedelta quarter_hour s = Inr e
                 \<and> horizon_minutes (timestamp_utc meta) s = Inr h) starts (rows fd)" by blast
  have cellwise: "\<And>s e. add_timedelta quarter_hour s = Inr e \<Longrightarrow>
      (\<exists>t. s = Time t \<and> e = Time (t + 900000000000)) \<or> (s = NaN \<and> e = NaN)"
    by (case_tac s) (auto simp: quarter_hour_def)
  have "list_all2 (\<lambda>s row. \<exists>p e h. row = [p, s, e, h]
                 \<and> ((\<exists>t. s = Time t \<and> e = Time (t + 900000000000)) \<or> (s = NaN \<and> e = NaN)))
               starts (rows fd)"
    by (rule list_all2_mono[OF st(3)]) (use cellwise in blast)
  with st(1,2) show ?thesis by blast
qed


lemma sample_forecast_insert:
  "InsertForecast sample_reshaped sample_meta ''m'' ''v1''
     \<in> set (new_calls world0 (snd (snd (save_forecasts_to_site_db sample_forecast world0 ''m'' ''v1'' ''nl''))))"
  by (simp add: save_forecasts_to_site_db_def run_defs nl_national_def sample_forecast_def
      reshape_forecast_def select_columns_def get_col_def set_col_def rename_columns_def
      floor15_def quarter_hour_def sample_reshaped_def sample_meta_def sample_horizon_values)

lemma sample_horizons_insert:
  "InsertForecast sample_horizons_reshaped sample_meta ''m'' ''v1''
     \<in> set (new_calls world0 (snd (snd (save_forecasts_to_site_db sample_horizons world0 ''m'' ''v1'' ''nl''))))"
  by (simp add: save_forecasts_to_site_db_def run_defs nl_national_def sample_horizons_def
      reshape_forecast_def select_columns_def get_col_def set_col_def rename_columns_def
      floor15_def quarter_hour_def sample_horizons_reshaped_def sample_meta_def sample_horizon_values)

theorem forecast_horizon_witness:
  "InsertForecast sample_horizons_reshaped sample_meta ''m'' ''v1''
     \<in> set (new_calls world0 (snd (snd (save_forecasts_to_site_db sample_horizons world0 ''m'' ''v1'' ''nl''))))
   \<and> timestamp_utc sample_meta = floor15 (clock world0)
   \<and> clock world0 = 1700000123456789000
   \<and> timestamp_utc sample_meta = 1700000100000000000
   \<and> map (\<lambda>row. (row ! 1, row ! 3)) (rows sample_horizons_reshaped) =
       [(Time 1699999200000000000, Num (- 15)),
        (Time 1700000000000000000, Num (- (7505999378950827 / 4503599627370496))),
        (Time 1700000200000000000, Num (7505999378950827 / 4503599627370496)),
        (Time 1700000100123456789, Num (1186133224398417 / 576460752303423488)),
        (NaN, NaN)]
   \<and> round_double (5 / 3) = 7505999378950827 / 4503599627370496
   \<and> \<bar>(7505999378950827 / 4503599627370496 :: rat) - 5 / 3\<bar> \<le> (5 / 3) / 2 ^ 51"
proof -
  let ?run = "save_forecasts_to_site_db sample_horizons world0 ''m'' ''v1'' ''nl''"
  have e: "?run = (fst ?run, fst (snd ?run), snd (snd ?run))" by simp
  from forecast_horizon[OF e sample_horizons_insert]
  have "timestamp_utc sample_meta = floor15 (clock world0)" by blast
  then show ?thesis
    using sample_horizons_insert
    by (simp add: sample_horizons_reshaped_def sample_meta_def world0_def sample_horizon_values)
qed

theorem forecast_interval_end_witness:
  "InsertForecast sample_reshaped sample_meta ''m'' ''v1''
     \<in> set (new_calls world0 (snd (snd (save_forecasts_to_site_db sample_forecast world0 ''m'' ''v1'' ''nl''))))
   \<and> columns sample_reshaped = [''forecast_power_kw'', ''start_utc'', ''end_utc'', ''horizon_minutes'']
   \<and> map (\<lambda>row. (row ! 1, row ! 2)) (rows sample_reshaped) =
       [(Time 1700000100000000000, Time 1700001000000000000),
        (Time 1700000190000000000, Time 1700001090000000000)]"
proof -
  let ?run = "save_forecasts_to_site_db sample_forecast world0 ''m'' ''v1'' ''nl''"
  have e: "?run = (fst ?run, fst (snd ?run), snd (snd ?run))" by simp
  from forecast_interval_end[OF e sample_forecast_insert]
  have "columns sample_reshaped = [''forecast_power_kw'', ''start_utc'', ''end_utc'', ''horizon_minutes'']"
    by blast
  then show ?thesis
    using sample_forecast_insert by (simp add: sample_reshaped_def)
qed

section \<open>Generation save: buckets and the capacity override\<close>

lemma inserted_append: "inserted (xs @ ys) = inserted xs @ inserted ys"
  by (induction xs rule: inserted.induct) auto

lemma set_col_length: "length (rows (set_col df n vs)) = min (length (rows df)) (length vs)"
  by (simp add: set_col_def split: option.splits)

lemma traverse_length: "traverse f xs = Inr ys \<Longrightarrow> length ys = length xs"
  using traverse_all2[of f xs ys] by (auto dest: list_all2_lengthD)

lemma prepare_generation_length:
  assumes "prepare_generation v b site = Inr d"
  shows "length (rows d) = length (rows b)"
proof -
  let ?d1 = "rename_columns b [(''solar_generation_kw'', ''power_kw''), (''target_datetime_utc'', ''start_utc'')]"
  from assms obtain cs ts where c: "get_col ?d1 ''start_utc'' = Inr cs"
    "traverse (to_datetime v) cs = Inr ts"
    "d = set_col (set_col ?d1 ''start_utc'' ts) ''site_uuid'' (replicate (length (rows ?d1)) (Uuid (location_uuid site)))"
    by (auto simp: prepare_generation_def Let_def split: sum.splits)
  have "length cs = length (rows b)" using c(1) by (auto simp: get_col_def rename_columns_def split: option.splits)
  then have "length ts = length (rows b)" using traverse_length[OF c(2)] by simp
  then show ?thesis unfolding c(3) by (simp add: set_col_length rename_columns_def)
qed

lemma save_site_step:
  assumes "save_site country ov df tso p w = (r, w')"
  shows "\<exists>cs. calls w' = calls w @ cs
       \<and> (cs \<noteq> [] \<longrightarrow> (\<exists>b. tso_bucket country df tso = Inr b \<and> \<not> df_empty b))
       \<and> (\<forall>n m. GetSite n m \<in> set cs \<longrightarrow> n = client_site_name p)
       \<and> (\<forall>s. CreateSite s \<in> set cs \<longrightarrow> row_client_site_name s = client_site_name p
               \<and> choose_capacity ov country (client_site_name p) = Inr (row_capacity_kw s))
       \<and> (r = Inr () \<longrightarrow>
            (\<exists>b. tso_bucket country df tso = Inr b
               \<and> map (\<lambda>d. length (rows d)) (inserted cs) = (if df_empty b then [] else [length (rows b)])))"
proof (cases "tso_bucket country df tso")
  case (Inl e)
  with assms show ?thesis by (auto simp: save_site_def)
next
  case (Inr b)
  show ?thesis
  proof (cases "df_empty b")
    case True
    with assms Inr show ?thesis by (simp add: save_site_def)
  next
    case False
    obtain r1 w1 where g: "get_or_create_pvsite w p country ov = (r1, w1)"
      by (cases "get_or_create_pvsite w p country ov") auto
    from gocp_cases[OF g] gocp_frame[OF g]
    obtain cs1 where cs1: "calls w1 = calls w @ cs1"
      "cs1 = [GetSite (client_site_name p) (client_site_name p)]
       \<or> (\<exists>s c. cs1 = [GetSite (client_site_name p) (client_site_name p), CreateSite s]
              \<and> choose_capacity ov country (client_site_name p) = Inr c
              \<and> row_client_site_name s = client_site_name p \<and> row_capacity_kw s = c)"
      by (auto simp: new_calls_def)
    show ?thesis
    proof (cases r1)
      case (Inl e)
      with assms Inr False g have "w' = w1" by (simp add: save_site_def)
      with cs1 Inl assms Inr False g show ?thesis by (auto simp: save_site_def)
    next
      case site: (Inr site)
      show ?thesis
      proof (cases "prepare_generation w1 b site")
        case (Inl e)
        with assms Inr False g site have "w' = w1" "r = Inl e" by (simp_all add: save_site_def)
        with cs1 Inr False show ?thesis by auto
      next
        case d: (Inr d)
        from assms Inr False g site d
        have "(r \<noteq> Inr () \<and> calls w' = calls w1 @ [InsertGeneration d])
              \<or> calls w' = calls w1 @ [InsertGeneration d, Commit]"
          by (auto simp: save_site_def ext_def split: option.splits)
        then show ?thesis
          using cs1 Inr False prepare_generation_length[OF d] by auto
      qed
    qed
  qed
qed


lemma save_sites_calls:
  assumes "save_sites country ov df ss w = (r, w')"
  shows "\<exists>cs. calls w' = calls w @ cs
       \<and> (\<forall>n m. GetSite n m \<in> set cs \<longrightarrow>
             (\<exists>(tso, p) \<in> set ss. n = client_site_name p
                 \<and> (\<exists>b. tso_bucket country df tso = Inr b \<and> \<not> df_empty b)))
       \<and> (\<forall>s. CreateSite s \<in> set cs \<longrightarrow>
             (\<exists>(tso, p) \<in> set ss. row_client_site_name s = client_site_name p
                 \<and> (\<exists>b. tso_bucket country df tso = Inr b \<and> \<not> df_empty b))
             \<and> choose_capacity ov country (row_client_site_name s) = Inr (row_capacity_kw s))
       \<and> (r = Inr () \<longrightarrow>
             map (\<lambda>d. length (rows d)) (inserted cs) =
               concat (map (\<lambda>(tso, p). case tso_bucket country df tso of
                                          Inl e \<Rightarrow> []
                                        | Inr b \<Rightarrow> if df_empty b then [] else [length (rows b)]) ss))"
  using assms
proof (induction ss arbitrary: w)
  case Nil
  then show ?case by simp
next
  case (Cons tp ss)
  obtain tso p where tp: "tp = (tso, p)" by (cases tp) auto
  obtain r1 w1 where st: "save_site country ov df tso p w = (r1, w1)"
    by (cases "save_site country ov df tso p w") auto
  from save_site_step[OF st] obtain cs1 where cs1:
    "calls w1 = calls w @ cs1"
    "cs1 \<noteq> [] \<longrightarrow> (\<exists>b. tso_bucket country df tso = Inr b \<and> \<not> df_empty b)"
    "\<forall>n m. GetSite n m \<in> set cs1 \<longrightarrow> n = client_site_name p"
    "\<forall>s. CreateSite s \<in> set cs1 \<longrightarrow> row_client_site_name s = client_site_name p
               \<and> choose_capacity ov country (client_site_name p) = Inr (row_capacity_kw s)"
    "r1 = Inr () \<longrightarrow>
            (\<exists>b. tso_bucket country df tso = Inr b
               \<and> map (\<lambda>d. length (rows d)) (inserted cs1) = (if df_empty b then [] else [length (rows b)]))"
    by blast
  have ne: "\<And>c. c \<in> set cs1 \<Longrightarrow> \<exists>b. tso_bucket country df tso = Inr b \<and> \<not> df_empty b"
    using cs1(2) by auto
  show ?case
  proof (cases r1)
    case (Inl e)
    with Cons.prems tp st have "r = Inl e" "w' = w1" by simp_all
    with cs1 ne tp show ?thesis by (intro exI[of _ cs1]) fastforce
  next
    case (Inr u)
    with Cons.prems tp st have rest: "save_sites country ov df ss w1 = (r, w')" by simp
    from Cons.IH[OF rest] obtain cs2 where cs2:
      "calls w' = calls w1 @ cs2"
      "\<forall>n m. GetSite n m \<in> set cs2 \<longrightarrow>
             (\<exists>(tso, p) \<in> set ss. n = client_site_name p
                 \<and> (\<exists>b. tso_bucket country df tso = Inr b \<and> \<not> df_empty b))"
      "\<forall>s. CreateSite s \<in> set cs2 \<longrightarrow>
             (\<exists>(tso, p) \<in> set ss. row_client_site_name s = client_site_name p
                 \<and> (\<exists>b. tso_bucket country df tso = Inr b \<and> \<not> df_empty b))
             \<and> choose_capacity ov country (row_client_site_name s) = Inr (row_capacity_kw s)"
      "r = Inr () \<longrightarrow>
             map (\<lambda>d. length (rows d)) (inserted cs2) =
               concat (map (\<lambda>(tso, p). case tso_bucket country df tso of
                                          Inl e \<Rightarrow> []
                                        | Inr b \<Rightarrow> if df_empty b then [] else [length (rows b)]) ss)"
      by blast
    have a: "calls w' = calls w @ (cs1 @ cs2)" using cs1(1) cs2(1) by simp
    have b: "\<forall>n m. GetSite n m \<in> set (cs1 @ cs2) \<longrightarrow>
             (\<exists>(tso, p) \<in> set (tp # ss). n = client_site_name p
                 \<and> (\<exists>b. tso_bucket country df tso = Inr b \<and> \<not> df_empty b))"
      using cs1(3) cs2(2) ne tp by fastforce
    have c: "\<forall>s. CreateSite s \<in> set (cs1 @ cs2) \<longrightarrow>
             (\<exists>(tso, p) \<in> set (tp # ss). row_client_site_name s = client_site_name p
                 \<and> (\<exists>b. tso_bucket country df tso = Inr b \<and> \<not> df_empty b))
             \<and> choose_capacity ov country (row_client_site_name s) = Inr (row_capacity_kw s)"
      using cs1(4) cs2(3) ne tp by fastforce
    have d: "r = Inr () \<longrightarrow>
             map (\<lambda>d. length (rows d)) (inserted (cs1 @ cs2)) =
               concat (map (\<lambda>(tso, p). case tso_bucket country df tso of
                                          Inl e \<Rightarrow> []
                                        | Inr b \<Rightarrow> if df_empty b then [] else [length (rows b)]) (tp # ss))"
      using cs1(5) cs2(4) Inr tp by (auto simp: inserted_append)
    from a b c d show ?thesis by blast
  qed
qed

lemma fold_max_Max: "fold max qs (q::rat) = Max (set (q # qs))"
  by (rule Max.set_eq_fold[symmetric])

lemma capacity_override_value:
  assumes "col_index (columns df) ''capacity_kw'' = Some i"
    and "list_all is_numeric (map (\<lambda>row. cell_at row i) (rows df))"
    and "nums (map (\<lambda>row. cell_at row i) (rows df)) \<noteq> []"
  shows "capacity_override df =
           Inr (Some (py_int (Max (set (nums (map (\<lambda>row. cell_at row i) (rows df)))))))"
proof -
  have m: "''capacity_kw'' \<in> set (columns df)"
    using assms(1) col_index_None_iff[of "columns df" "''capacity_kw''"] by auto
  obtain q qs where q: "nums (map (\<lambda>row. cell_at row i) (rows df)) = q # qs"
    using assms(3) by (cases "nums (map (\<lambda>row. cell_at row i) (rows df))") auto
  show ?thesis
    using m assms(1,2) q fold_max_Max[of qs q]
    by (simp add: capacity_override_def get_col_def int_max_def)
qed

lemma capacity_override_absent:
  "''capacity_kw'' \<notin> set (columns df) \<Longrightarrow> capacity_override df = Inr None"
  by (simp add: capacity_override_def)

lemma save_generation_calls:
  assumes "save_generation_to_site_db df w country = (r, w')"
  shows "(\<exists>ov ss. \<not> df_empty df \<and> country_sites country = Inr ss \<and> capacity_override df = Inr ov
            \<and> save_sites country ov df ss w = (r, w'))
       \<or> (w' = w \<and> (df_empty df \<or> (\<exists>e. country_sites country = Inl e)
                     \<or> (\<exists>e. capacity_override df = Inl e)))"
  using assms by (auto simp: save_generation_to_site_db_def split: if_splits sum.splits)

text \<open>
  C2. When the table has a column \<^verbatim>\<open>capacity_kw\<close> holding numbers, the override is the
  maximum of that column over all rows of the input, truncated to an integer; it is
  computed before the loop over the sites, the loop runs with that one value, and every
  site created in the call has it as its capacity. Without the column the override is
  absent and every site created gets the capacity of the table or the default.
\<close>

theorem capacity_override_is_global_maximum:
  assumes "save_generation_to_site_db generation_data w country = (r, w')"
  shows "(\<forall>i. col_index (columns generation_data) ''capacity_kw'' = Some i
            \<and> list_all is_numeric (map (\<lambda>row. cell_at row i) (rows generation_data))
            \<and> nums (map (\<lambda>row. cell_at row i) (rows generation_data)) \<noteq> [] \<longrightarrow>
            capacity_override generation_data =
              Inr (Some (py_int (Max (set (nums (map (\<lambda>row. cell_at row i) (rows generation_data)))))))
            \<and> (\<forall>s. CreateSite s \<in> set (new_calls w w') \<longrightarrow>
                  row_capacity_kw s =
                    py_int (Max (set (nums (map (\<lambda>row. cell_at row i) (rows generation_data)))))))
       \<and> (''capacity_kw'' \<notin> set (columns generation_data) \<longrightarrow>
            capacity_override generation_data = Inr None
            \<and> (\<forall>s. CreateSite s \<in> set (new_calls w w') \<longrightarrow>
                  choose_capacity None country (row_client_site_name s) = Inr (row_capacity_kw s)))
       \<and> (\<forall>ov ss. \<not> df_empty generation_data \<and> country_sites country = Inr ss
              \<and> capacity_override generation_data = Inr ov \<longrightarrow>
              save_generation_to_site_db generation_data w country =
                save_sites country ov generation_data ss w)"
proof -
  have created: "\<And>ov s. capacity_override generation_data = Inr ov \<Longrightarrow>
      CreateSite s \<in> set (new_calls w w') \<Longrightarrow>
      choose_capacity ov country (row_client_site_name s) = Inr (row_capacity_kw s)"
  proof -
    fix ov s
    assume ov: "capacity_override generation_data = Inr ov"
      and s: "CreateSite s \<in> set (new_calls w w')"
    from save_generation_calls[OF assms] s ov obtain ss where
      "save_sites country ov generation_data ss w = (r, w')"
      by (auto simp: new_calls_def)
    from save_sites_calls[OF this] s
    show "choose_capacity ov country (row_client_site_name s) = Inr (row_capacity_kw s)"
      by (auto simp: new_calls_def)
  qed
  have a: "\<forall>i. col_index (columns generation_data) ''capacity_kw'' = Some i
            \<and> list_all is_numeric (map (\<lambda>row. cell_at row i) (rows generation_data))
            \<and> nums (map (\<lambda>row. cell_at row i) (rows generation_data)) \<noteq> [] \<longrightarrow>
            capacity_override generation_data =
              Inr (Some (py_int (Max (set (nums (map (\<lambda>row. cell_at row i) (rows generation_data)))))))
            \<and> (\<forall>s. CreateSite s \<in> set (new_calls w w') \<longrightarrow>
                  row_capacity_kw s =
                    py_int (Max (set (nums (map (\<lambda>row. cell_at row i) (rows generation_data))))))"
  proof (intro allI impI, elim conjE)
    fix i
    assume h: "col_index (columns generation_data) ''capacity_kw'' = Some i"
      "list_all is_numeric (map (\<lambda>row. cell_at row i) (rows generation_data))"
      "nums (map (\<lambda>row. cell_at row i) (rows generation_data)) \<noteq> []"
    let ?m = "py_int (Max (set (nums (map (\<lambda>row. cell_at row i) (rows generation_data)))))"
    have ov: "capacity_override generation_data = Inr (Some ?m)"
      by (rule capacity_override_value[OF h])
    have "\<forall>s. CreateSite s \<in> set (new_calls w w') \<longrightarrow> row_capacity_kw s = ?m"
      using created[OF ov] by (auto simp: choose_capacity_def)
    with ov show "capacity_override generation_data = Inr (Some ?m)
            \<and> (\<forall>s. CreateSite s \<in> set (new_calls w w') \<longrightarrow> row_capacity_kw s = ?m)" by blast
  qed
  have b: "''capacity_kw'' \<notin> set (columns generation_data) \<longrightarrow>
            capacity_override generation_data = Inr None
            \<and> (\<forall>s. CreateSite s \<in> set (new_calls w w') \<longrightarrow>
                  choose_capacity None country (row_client_site_name s) = Inr (row_capacity_kw s))"
    using created capacity_override_absent[of generation_data] by blast
  have c: "\<forall>ov ss. \<not> df_empty generation_data \<and> country_sites country = Inr ss
              \<and> capacity_override generation_data = Inr ov \<longrightarrow>
              save_generation_to_site_db generation_data w country =
                save_sites country ov generation_data ss w"
    by (simp add: save_generation_to_site_db_def)
  from a b c show ?thesis by blast
qed


lemma de_bucket:
  "col_index (columns df) ''tso_zone'' = Some i \<Longrightarrow>
   tso_bucket ''de'' df tso = Inr (df\<lparr>rows := filter (\<lambda>row. cell_at row i = Str tso) (rows df)\<rparr>)"
  by (simp add: tso_bucket_def filter_rows_def)

lemma de_bucket_empty:
  "col_index (columns df) ''tso_zone'' = Some i \<Longrightarrow>
   df_empty (df\<lparr>rows := filter (\<lambda>row. cell_at row i = Str tso) (rows df)\<rparr>)
     \<longleftrightarrow> filter (\<lambda>row. cell_at row i = Str tso) (rows df) = []"
  by (cases "columns df") (auto simp: df_empty_def)

lemma de_sites_names:
  "(tso, p) \<in> set DE_TSO_SITES \<Longrightarrow>
     client_site_name p = tso \<and> tso \<in> {''TransnetBW'', ''50Hertz'', ''TenneT'', ''Amprion''}"
  by (auto simp: DE_TSO_SITES_def de_transnetbw_def de_50hertz_def de_tennet_def de_amprion_def)

lemma de_run_calls:
  assumes i: "col_index (columns df) ''tso_zone'' = Some i"
    and run: "save_generation_to_site_db df w ''de'' = (r, w')"
  shows "(\<forall>n m. GetSite n m \<in> set (new_calls w w') \<longrightarrow>
            n \<in> {''TransnetBW'', ''50Hertz'', ''TenneT'', ''Amprion''}
            \<and> (\<exists>row \<in> set (rows df). cell_at row i = Str n))
       \<and> (\<forall>s. CreateSite s \<in> set (new_calls w w') \<longrightarrow>
            row_client_site_name s \<in> {''TransnetBW'', ''50Hertz'', ''TenneT'', ''Amprion''}
            \<and> (\<exists>row \<in> set (rows df). cell_at row i = Str (row_client_site_name s)))
       \<and> (r = Inr () \<longrightarrow>
            map (\<lambda>d. length (rows d)) (inserted (new_calls w w')) =
              filter (\<lambda>n. 0 < n)
                (map (\<lambda>(tso, p). length (filter (\<lambda>row. cell_at row i = Str tso) (rows df)))
                   DE_TSO_SITES))"
proof -
  from save_generation_calls[OF run]
  consider (loop) ov where "save_sites ''de'' ov df DE_TSO_SITES w = (r, w')" "\<not> df_empty df"
    | (stop) "w' = w" "df_empty df \<or> (\<exists>e. capacity_override df = Inl e)"
    by (auto simp: country_sites_def)
  then show ?thesis
  proof cases
    case loop
    from save_sites_calls[OF loop(1)] obtain cs where cs:
      "calls w' = calls w @ cs"
      "\<forall>n m. GetSite n m \<in> set cs \<longrightarrow>
             (\<exists>(tso, p) \<in> set DE_TSO_SITES. n = client_site_name p
                 \<and> (\<exists>b. tso_bucket ''de'' df tso = Inr b \<and> \<not> df_empty b))"
      "\<forall>s. CreateSite s \<in> set cs \<longrightarrow>
             (\<exists>(tso, p) \<in> set DE_TSO_SITES. row_client_site_name s = client_site_name p
                 \<and> (\<exists>b. tso_bucket ''de'' df tso = Inr b \<and> \<not> df_empty b))
             \<and> choose_capacity ov ''de'' (row_client_site_name s) = Inr (row_capacity_kw s)"
      "r = Inr () \<longrightarrow>
             map (\<lambda>d. length (rows d)) (inserted cs) =
               concat (map (\<lambda>(tso, p). case tso_bucket ''de'' df tso of
                                          Inl e \<Rightarrow> []
                                        | Inr b \<Rightarrow> if df_empty b then [] else [length (rows b)])
                         DE_TSO_SITES)"
      by blast
    have nc: "new_calls w w' = cs" using cs(1) by (simp add: new_calls_def)
    have nonempty: "\<And>tso b. tso_bucket ''de'' df tso = Inr b \<Longrightarrow> \<not> df_empty b \<Longrightarrow>
        \<exists>row \<in> set (rows df). cell_at row i = Str tso"
    proof -
      fix tso b assume "tso_bucket ''de'' df tso = Inr b" "\<not> df_empty b"
      then have "filter (\<lambda>row. cell_at row i = Str tso) (rows df) \<noteq> []"
        using de_bucket[OF i, of tso] de_bucket_empty[OF i, of tso] by auto
      then show "\<exists>row \<in> set (rows df). cell_at row i = Str tso"
        by (auto simp: filter_empty_conv)
    qed
    have a: "\<forall>n m. GetSite n m \<in> set cs \<longrightarrow>
            n \<in> {''TransnetBW'', ''50Hertz'', ''TenneT'', ''Amprion''}
            \<and> (\<exists>row \<in> set (rows df). cell_at row i = Str n)"
    proof (intro allI impI)
      fix n m assume "GetSite n m \<in> set cs"
      with cs(2) obtain tso p b where "(tso, p) \<in> set DE_TSO_SITES" "n = client_site_name p"
        "tso_bucket ''de'' df tso = Inr b" "\<not> df_empty b" by blast
      with de_sites_names[of tso p] nonempty[of tso b]
      show "n \<in> {''TransnetBW'', ''50Hertz'', ''TenneT'', ''Amprion''}
            \<and> (\<exists>row \<in> set (rows df). cell_at row i = Str n)" by simp
    qed
    have b: "\<forall>s. CreateSite s \<in> set cs \<longrightarrow>
            row_client_site_name s \<in> {''TransnetBW'', ''50Hertz'', ''TenneT'', ''Amprion''}
            \<and> (\<exists>row \<in> set (rows df). cell_at row i = Str (row_client_site_name s))"
    proof (intro allI impI)
      fix s assume "CreateSite s \<in> set cs"
      with cs(3) obtain tso p b where "(tso, p) \<in> set DE_TSO_SITES"
        "row_client_site_name s = client_site_name p"
        "tso_bucket ''de'' df tso = Inr b" "\<not> df_empty b" by blast
      with de_sites_names[of tso p] nonempty[of tso b]
      show "row_client_site_name s \<in> {''TransnetBW'', ''50Hertz'', ''TenneT'', ''Amprion''}
            \<and> (\<exists>row \<in> set (rows df). cell_at row i = Str (row_client_site_name s))" by simp
    qed
    have c: "concat (map (\<lambda>(tso, p). case tso_bucket ''de'' df tso of
                                          Inl e \<Rightarrow> []
                                        | Inr b \<Rightarrow> if df_empty b then [] else [length (rows b)])
                         DE_TSO_SITES)
           = filter (\<lambda>n. 0 < n)
                (map (\<lambda>(tso, p). length (filter (\<lambda>row. cell_at row i = Str tso) (rows df)))
                   DE_TSO_SITES)"
      by (simp add: DE_TSO_SITES_def de_bucket[OF i] de_bucket_empty[OF i])
    from a b c cs(4) nc show ?thesis by simp
  next
    case stop
    have "r = Inr () \<longrightarrow> rows df = []"
      using run stop(2) i
      by (cases "columns df") (auto simp: save_generation_to_site_db_def df_empty_def country_sites_def
          split: if_splits sum.splits)
    then show ?thesis
      using stop(1) by (auto simp: new_calls_def DE_TSO_SITES_def)
  qed
qed


lemmas gen_defs = save_generation_to_site_db_def country_sites_def DE_TSO_SITES_def
  capacity_override_def int_max_def get_col_def save_site_def tso_bucket_def filter_rows_def
  prepare_generation_def rename_columns_def set_col_def df_empty_def de_transnetbw_def
  de_50hertz_def de_tennet_def de_amprion_def py_int_def sample_generation_def

lemma sample_generation_run:
  "fst (save_generation_to_site_db sample_generation world0 ''de'') = Inr ()
   \<and> new_calls world0 (snd (save_generation_to_site_db sample_generation world0 ''de'')) =
       [GetSite ''TenneT'' ''TenneT'',
        CreateSite \<lparr>location_uuid = 0, row_client_site_name = ''TenneT'', row_latitude = ''52.38'',
          row_longitude = ''5.17'', row_client_site_id = 1, row_country = ''de'',
          row_capacity_kw = 250, row_dno = [], row_gsp = []\<rparr>,
        InsertGeneration
          \<lparr>columns = [''power_kw'', ''start_utc'', ''capacity_kw'', ''tso_zone'', ''site_uuid''],
           rows = [[Num 5, Time 1700000100000000000, Num 100, Str ''TenneT'', Uuid 0]]\<rparr>,
        Commit,
        GetSite ''Amprion'' ''Amprion'',
        CreateSite \<lparr>location_uuid = 1, row_client_site_name = ''Amprion'', row_latitude = ''51.52'',
          row_longitude = ''7.45'', row_client_site_id = 1, row_country = ''de'',
          row_capacity_kw = 250, row_dno = [], row_gsp = []\<rparr>,
        InsertGeneration
          \<lparr>columns = [''power_kw'', ''start_utc'', ''capacity_kw'', ''tso_zone'', ''site_uuid''],
           rows = [[Num 7, Time 1700000100000000000, Num 70, Str ''Amprion'', Uuid 1]]\<rparr>,
        Commit]"
  by (simp add: gen_defs run_defs)


theorem capacity_override_witness:
  "capacity_override sample_generation = Inr (Some 250)
   \<and> CreateSite \<lparr>location_uuid = 0, row_client_site_name = ''TenneT'', row_latitude = ''52.38'',
          row_longitude = ''5.17'', row_client_site_id = 1, row_country = ''de'',
          row_capacity_kw = 250, row_dno = [], row_gsp = []\<rparr>
       \<in> set (new_calls world0 (snd (save_generation_to_site_db sample_generation world0 ''de'')))
   \<and> int_max [Num 100] = Inr 100"
proof -
  let ?run = "save_generation_to_site_db sample_generation world0 ''de''"
  let ?col = "map (\<lambda>row. cell_at row (Suc (Suc 0))) (rows sample_generation)"
  have e: "?run = (fst ?run, snd ?run)" by simp
  have idx: "col_index (columns sample_generation) ''capacity_kw'' = Some (Suc (Suc 0))"
    by (simp add: sample_generation_def)
  have num: "list_all is_numeric ?col" by (simp add: sample_generation_def)
  have ne: "nums ?col \<noteq> []" by (simp add: sample_generation_def)
  have mx: "py_int (Max (set (nums ?col))) = 250" by (simp add: sample_generation_def py_int_def)
  note t = capacity_override_is_global_maximum[OF e, THEN conjunct1, rule_format, of "Suc (Suc 0)"]
  from t[OF conjI[OF idx conjI[OF num ne]]] mx
  have "capacity_override sample_generation = Inr (Some 250)" by simp
  moreover have "int_max [Num 100] = Inr 100" by (simp add: int_max_def py_int_def)
  ultimately show ?thesis using sample_generation_run by simp
qed

section \<open>Site resolution: create and repeated calls\<close>

lemma gocp_key_error:
  assumes "fst (get_site_by_client_site_name w (client_site_name p) (client_site_name p)) = Inl e"
    and "client_site_name p \<notin> {''TransnetBW'', ''50Hertz'', ''TenneT'', ''Amprion''}"
  shows "get_or_create_pvsite w p ''de'' None =
           (Inl (KeyError (client_site_name p)),
            w\<lparr>calls := calls w @ [GetSite (client_site_name p) (client_site_name p)]\<rparr>)"
proof -
  let ?n = "client_site_name p"
  obtain w1 where l: "get_site_by_client_site_name w ?n ?n = (Inl e, w1)"
    using assms(1) by (cases "get_site_by_client_site_name w ?n ?n") auto
  have w1: "w1 = w\<lparr>calls := calls w @ [GetSite ?n ?n]\<rparr>" by (rule lookup_world[OF l])
  have "choose_capacity None ''de'' ?n = Inl (KeyError ?n)"
    using assms(2) by (auto simp: choose_capacity_def DE_TSO_CAPACITY_def split: option.splits)
  with l w1 show ?thesis by (simp add: get_or_create_pvsite_def)
qed

lemma gocp_lookup_raises:
  assumes "raises w (calls w) (GetSite (client_site_name p) (client_site_name p)) = Some e"
    and "choose_capacity ov country (client_site_name p) = Inr c"
  shows "new_calls w (snd (get_or_create_pvsite w p country ov)) =
           [GetSite (client_site_name p) (client_site_name p),
            CreateSite \<lparr>location_uuid = next_uuid w, row_client_site_name = client_site_name p,
              row_latitude = latitude p, row_longitude = longitude p, row_client_site_id = 1,
              row_country = country, row_capacity_kw = c, row_dno = [], row_gsp = []\<rparr>]"
  using assms
  by (auto simp: get_or_create_pvsite_def get_site_by_client_site_name_def create_site_def ext_def
      new_calls_def Let_def split: option.splits)


text \<open>
  C8, as amended. Site resolution performs a create exactly when the lookup by client site
  name fails (for any reason) and a capacity can be chosen: an override is given, or the
  country is not "de", or the name is one of the four TSO names. When the lookup fails and
  no capacity can be chosen (country "de", no override, another name) the resolution ends
  in a key error for that name, with the lookup as its only call and the sites table
  unchanged. When the lookup succeeds the existing site is returned, the sites table is
  unchanged and the lookup is the only call. After a resolution that returned a site, a
  second resolution of the same name whose lookup does not raise makes the lookup and
  nothing else, leaves the sites table as it is and returns a site of that name, the same
  site when the first lookup did not raise either; a second resolution whose lookup
  raises, and for which a capacity can be chosen, makes the lookup and a create of a site
  of that name.
\<close>

theorem site_resolution_create_and_idempotence:
  assumes "get_or_create_pvsite w p country ov = (r, w')"
  shows "((\<exists>s. CreateSite s \<in> set (new_calls w w')) \<longleftrightarrow>
            (\<exists>e. fst (get_site_by_client_site_name w (client_site_name p) (client_site_name p)) = Inl e)
            \<and> (ov \<noteq> None \<or> country \<noteq> ''de''
                 \<or> client_site_name p \<in> {''TransnetBW'', ''50Hertz'', ''TenneT'', ''Amprion''}))
       \<and> ((\<exists>e. fst (get_site_by_client_site_name w (client_site_name p) (client_site_name p)) = Inl e)
            \<and> ov = None \<and> country = ''de''
            \<and> client_site_name p \<notin> {''TransnetBW'', ''50Hertz'', ''TenneT'', ''Amprion''} \<longrightarrow>
              r = Inl (KeyError (client_site_name p)) \<and> sites w' = sites w
              \<and> new_calls w w' = [GetSite (client_site_name p) (client_site_name p)])
       \<and> (\<forall>s. fst (get_site_by_client_site_name w (client_site_name p) (client_site_name p)) = Inr s \<longrightarrow>
              r = Inr s \<and> sites w' = sites w
              \<and> new_calls w w' = [GetSite (client_site_name p) (client_site_name p)])
       \<and> (\<forall>s. r = Inr s
              \<and> raises w' (calls w') (GetSite (client_site_name p) (client_site_name p)) = None \<longrightarrow>
              (\<exists>s'. get_or_create_pvsite w' p country ov =
                      (Inr s', w'\<lparr>calls := calls w' @ [GetSite (client_site_name p) (client_site_name p)]\<rparr>)
                   \<and> row_client_site_name s' = client_site_name p
                   \<and> (raises w (calls w) (GetSite (client_site_name p) (client_site_name p)) = None
                        \<longrightarrow> s' = s)))
       \<and> (\<forall>s. r = Inr s
              \<and> raises w' (calls w') (GetSite (client_site_name p) (client_site_name p)) \<noteq> None
              \<and> (ov \<noteq> None \<or> country \<noteq> ''de''
                   \<or> client_site_name p \<in> {''TransnetBW'', ''50Hertz'', ''TenneT'', ''Amprion''}) \<longrightarrow>
              (\<exists>s2. new_calls w' (snd (get_or_create_pvsite w' p country ov)) =
                      [GetSite (client_site_name p) (client_site_name p), CreateSite s2]
                    \<and> row_client_site_name s2 = client_site_name p))"
proof -
  let ?n = "client_site_name p"
  note a = gocp_create_iff[OF assms]
  have b: "(\<exists>e. fst (get_site_by_client_site_name w ?n ?n) = Inl e)
            \<and> ov = None \<and> country = ''de''
            \<and> ?n \<notin> {''TransnetBW'', ''50Hertz'', ''TenneT'', ''Amprion''} \<longrightarrow>
              r = Inl (KeyError ?n) \<and> sites w' = sites w \<and> new_calls w w' = [GetSite ?n ?n]"
  proof (intro impI, elim conjE exE)
    fix e
    assume h: "fst (get_site_by_client_site_name w ?n ?n) = Inl e" "ov = None" "country = ''de''"
      "?n \<notin> {''TransnetBW'', ''50Hertz'', ''TenneT'', ''Amprion''}"
    from gocp_key_error[OF h(1) h(4)] assms h(2,3)
    show "r = Inl (KeyError ?n) \<and> sites w' = sites w \<and> new_calls w w' = [GetSite ?n ?n]"
      by (auto simp: new_calls_def)
  qed
  have c: "\<forall>s. fst (get_site_by_client_site_name w ?n ?n) = Inr s \<longrightarrow>
              r = Inr s \<and> sites w' = sites w \<and> new_calls w w' = [GetSite ?n ?n]"
    using gocp_found_frame[OF assms] by blast
  have d: "\<forall>s. r = Inr s \<and> raises w' (calls w') (GetSite ?n ?n) = None \<longrightarrow>
              (\<exists>s'. get_or_create_pvsite w' p country ov =
                      (Inr s', w'\<lparr>calls := calls w' @ [GetSite ?n ?n]\<rparr>)
                   \<and> row_client_site_name s' = ?n
                   \<and> (raises w (calls w) (GetSite ?n ?n) = None \<longrightarrow> s' = s))"
    using gocp_second_call[of w p country ov _ w' country ov] assms by blast
  have e: "\<forall>s. r = Inr s \<and> raises w' (calls w') (GetSite ?n ?n) \<noteq> None
              \<and> (ov \<noteq> None \<or> country \<noteq> ''de''
                   \<or> ?n \<in> {''TransnetBW'', ''50Hertz'', ''TenneT'', ''Amprion''}) \<longrightarrow>
              (\<exists>s2. new_calls w' (snd (get_or_create_pvsite w' p country ov)) =
                      [GetSite ?n ?n, CreateSite s2]
                    \<and> row_client_site_name s2 = ?n)"
  proof (intro allI impI, elim conjE)
    fix s assume h: "raises w' (calls w') (GetSite ?n ?n) \<noteq> None"
      "ov \<noteq> None \<or> country \<noteq> ''de'' \<or> ?n \<in> {''TransnetBW'', ''50Hertz'', ''TenneT'', ''Amprion''}"
    then obtain x where x: "raises w' (calls w') (GetSite ?n ?n) = Some x" by auto
    from h(2) choose_capacity_ok_iff[of ov country ?n]
    obtain c where c: "choose_capacity ov country ?n = Inr c" by blast
    from gocp_lookup_raises[OF x c]
    show "\<exists>s2. new_calls w' (snd (get_or_create_pvsite w' p country ov)) =
                      [GetSite ?n ?n, CreateSite s2] \<and> row_client_site_name s2 = ?n"
      by simp
  qed
  show ?thesis by (rule conjI[OF a conjI[OF b conjI[OF c conjI[OF d e]]]])
qed


theorem site_resolution_witness:
  "fst (get_or_create_pvsite world0 nl_national ''nl'' None) =
     Inr \<lparr>location_uuid = 0, row_client_site_name = ''nl_national'', row_latitude = ''52.15'',
          row_longitude = ''5.23'', row_client_site_id = 1, row_country = ''nl'',
          row_capacity_kw = 20000000, row_dno = [], row_gsp = []\<rparr>
   \<and> new_calls world0 (snd (get_or_create_pvsite world0 nl_national ''nl'' None)) =
       [GetSite ''nl_national'' ''nl_national'',
        CreateSite \<lparr>location_uuid = 0, row_client_site_name = ''nl_national'', row_latitude = ''52.15'',
          row_longitude = ''5.23'', row_client_site_id = 1, row_country = ''nl'',
          row_capacity_kw = 20000000, row_dno = [], row_gsp = []\<rparr>]
   \<and> new_calls (snd (get_or_create_pvsite world0 nl_national ''nl'' None))
        (snd (get_or_create_pvsite (snd (get_or_create_pvsite world0 nl_national ''nl'' None)) nl_national ''nl'' None)) =
       [GetSite ''nl_national'' ''nl_national'']"
proof -
  let ?r = "get_or_create_pvsite world0 nl_national ''nl'' None"
  have e: "?r = (fst ?r, snd ?r)" by simp
  have v: "fst ?r = Inr \<lparr>location_uuid = 0, row_client_site_name = ''nl_national'', row_latitude = ''52.15'',
          row_longitude = ''5.23'', row_client_site_id = 1, row_country = ''nl'',
          row_capacity_kw = 20000000, row_dno = [], row_gsp = []\<rparr>"
    by (simp add: run_defs nl_national_def)
  have c: "new_calls world0 (snd ?r) = [GetSite ''nl_national'' ''nl_national'',
        CreateSite \<lparr>location_uuid = 0, row_client_site_name = ''nl_national'', row_latitude = ''52.15'',
          row_longitude = ''5.23'', row_client_site_id = 1, row_country = ''nl'',
          row_capacity_kw = 20000000, row_dno = [], row_gsp = []\<rparr>]"
    by (simp add: run_defs nl_national_def)
  have h: "raises (snd ?r) (calls (snd ?r)) (GetSite ''nl_national'' ''nl_national'') = None"
    by (simp add: run_defs nl_national_def)
  note t = site_resolution_create_and_idempotence[OF e, THEN conjunct2, THEN conjunct2,
      THEN conjunct2, THEN conjunct1, rule_format]
  from t[OF conjI[OF v]] h
  have "\<exists>s'. get_or_create_pvsite (snd ?r) nl_national ''nl'' None =
        (Inr s', (snd ?r)\<lparr>calls := calls (snd ?r) @ [GetSite ''nl_national'' ''nl_national'']\<rparr>)"
    by (auto simp: nl_national_def)
  then have "new_calls (snd ?r) (snd (get_or_create_pvsite (snd ?r) nl_national ''nl'' None)) =
       [GetSite ''nl_national'' ''nl_national'']"
    by (auto simp: new_calls_def)
  with v c show ?thesis by simp
qed

text \<open>
  C8 as stated fails in two ways. Repeated calls are not idempotent when the second lookup
  raises: on a backend whose lookups raise after the first call, the first resolution of
  \<^verbatim>\<open>nl_national\<close> creates the site and the second creates it again. And a failed lookup
  does not always end in a create: on a fresh database, with country "de" and no
  override, the resolution of \<^verbatim>\<open>nl_national\<close> ends in a key error of the capacity table,
  with no create.
\<close>

theorem second_lookup_failure_creates_again:
  "fst (get_or_create_pvsite world_flaky nl_national ''nl'' None) =
     Inr \<lparr>location_uuid = 0, row_client_site_name = ''nl_national'', row_latitude = ''52.15'',
          row_longitude = ''5.23'', row_client_site_id = 1, row_country = ''nl'',
          row_capacity_kw = 20000000, row_dno = [], row_gsp = []\<rparr>
   \<and> calls (snd (get_or_create_pvsite
         (snd (get_or_create_pvsite world_flaky nl_national ''nl'' None)) nl_national ''nl'' None)) =
       [GetSite ''nl_national'' ''nl_national'',
        CreateSite \<lparr>location_uuid = 0, row_client_site_name = ''nl_national'', row_latitude = ''52.15'',
          row_longitude = ''5.23'', row_client_site_id = 1, row_country = ''nl'',
          row_capacity_kw = 20000000, row_dno = [], row_gsp = []\<rparr>,
        GetSite ''nl_national'' ''nl_national'',
        CreateSite \<lparr>location_uuid = 1, row_client_site_name = ''nl_national'', row_latitude = ''52.15'',
          row_longitude = ''5.23'', row_client_site_id = 1, row_country = ''nl'',
          row_capacity_kw = 20000000, row_dno = [], row_gsp = []\<rparr>]
   \<and> fst (get_site_by_client_site_name world0 (client_site_name nl_national) (client_site_name nl_national))
     = Inl (Exception ''Could not find site'')
   \<and> fst (get_or_create_pvsite world0 nl_national ''de'' None) = Inl (KeyError ''nl_national'')
   \<and> calls (snd (get_or_create_pvsite world0 nl_national ''de'' None)) = [GetSite ''nl_national'' ''nl_national'']"
  by (simp add: run_defs nl_national_def world_flaky_def DE_TSO_CAPACITY_def)

section \<open>Generation save: the rows that reach the insert\<close>

lemma prepare_generation_rows:
  assumes "prepare_generation v b site = Inr d"
  shows "\<exists>j. col_index (columns (rename_columns b
                  [(''solar_generation_kw'', ''power_kw''), (''target_datetime_utc'', ''start_utc'')]))
                ''start_utc'' = Some j
           \<and> list_all2 (\<lambda>row row'. \<exists>t. to_datetime v (cell_at row j) = Inr t
                  \<and> row' = (case col_index (columns (rename_columns b
                                  [(''solar_generation_kw'', ''power_kw''),
                                   (''target_datetime_utc'', ''start_utc'')])) ''site_uuid'' of
                              Some k \<Rightarrow> (row[j := t])[k := Uuid (location_uuid site)]
                            | None \<Rightarrow> row[j := t] @ [Uuid (location_uuid site)]))
               (rows b) (rows d)"
proof -
  let ?d1 = "rename_columns b [(''solar_generation_kw'', ''power_kw''), (''target_datetime_utc'', ''start_utc'')]"
  let ?u = "Uuid (location_uuid site)"
  from assms obtain cs ts where c: "get_col ?d1 ''start_utc'' = Inr cs"
    "traverse (to_datetime v) cs = Inr ts"
    "d = set_col (set_col ?d1 ''start_utc'' ts) ''site_uuid'' (replicate (length (rows ?d1)) ?u)"
    by (auto simp: prepare_generation_def Let_def split: sum.splits)
  from c(1) obtain j where j: "col_index (columns ?d1) ''start_utc'' = Some j"
    and cs: "cs = map (\<lambda>r. cell_at r j) (rows ?d1)"
    by (auto simp: get_col_def split: option.splits)
  have rb: "rows ?d1 = rows b" by (simp add: rename_columns_def)
  have lt: "length ts = length (rows b)" using traverse_length[OF c(2)] cs rb by simp
  have all2: "list_all2 (\<lambda>x y. to_datetime v x = Inr y) (map (\<lambda>r. cell_at r j) (rows b)) ts"
    using traverse_all2[OF c(2)] cs rb by simp
  let ?d2 = "set_col ?d1 ''start_utc'' ts"
  have d2: "columns ?d2 = columns ?d1" "rows ?d2 = map (\<lambda>(r, t). r[j := t]) (zip (rows b) ts)"
    using j rb by (simp_all add: set_col_def)
  have "list_all2 (\<lambda>row row'. \<exists>t. to_datetime v (cell_at row j) = Inr t
                  \<and> row' = (case col_index (columns ?d1) ''site_uuid'' of
                              Some k \<Rightarrow> (row[j := t])[k := ?u]
                            | None \<Rightarrow> row[j := t] @ [?u]))
               (rows b) (rows d)"
  proof (cases "col_index (columns ?d1) ''site_uuid''")
    case None
    then have "rows d = map (\<lambda>(r, x). r @ [x]) (zip (rows ?d2) (replicate (length (rows b)) ?u))"
      unfolding c(3) using d2(1) rb by (simp add: set_col_def)
    then show ?thesis
      using None lt all2 d2(2) by (auto simp: list_all2_conv_all_nth)
  next
    case (Some k)
    then have "rows d = map (\<lambda>(r, x). r[k := x]) (zip (rows ?d2) (replicate (length (rows b)) ?u))"
      unfolding c(3) using d2(1) rb by (simp add: set_col_def)
    then show ?thesis
      using Some lt all2 d2(2) by (auto simp: list_all2_conv_all_nth)
  qed
  with j show ?thesis by blast
qed

lemma gocp_site_name:
  "get_or_create_pvsite w p country ov = (Inr s, w1) \<Longrightarrow> row_client_site_name s = client_site_name p"
  using gocp_Inr_cases[of w p country ov s w1] by (auto dest: find_SomeD)

lemma to_datetime_cong:
  "parse_datetime v = parse_datetime w \<Longrightarrow> to_datetime v = to_datetime w"
proof
  fix c assume "parse_datetime v = parse_datetime w"
  then show "to_datetime v c = to_datetime w c" by (cases c) auto
qed

lemma prepare_generation_cong:
  "parse_datetime v = parse_datetime w \<Longrightarrow> prepare_generation v b site = prepare_generation w b site"
proof -
  assume "parse_datetime v = parse_datetime w"
  then have e: "to_datetime v = to_datetime w" by (rule to_datetime_cong)
  show ?thesis unfolding prepare_generation_def e by (rule refl)
qed

lemma save_site_inserts:
  assumes "save_site country ov df tso p w = (r, w')"
  shows "parse_datetime w' = parse_datetime w
       \<and> (\<forall>d. InsertGeneration d \<in> set (new_calls w w') \<longrightarrow>
            (\<exists>b site. tso_bucket country df tso = Inr b \<and> \<not> df_empty b
                \<and> row_client_site_name site = client_site_name p
                \<and> prepare_generation w b site = Inr d))"
proof (cases "tso_bucket country df tso")
  case (Inl e)
  with assms show ?thesis by (auto simp: save_site_def new_calls_def)
next
  case (Inr b)
  show ?thesis
  proof (cases "df_empty b")
    case True
    with assms Inr show ?thesis by (simp add: save_site_def new_calls_def)
  next
    case False
    obtain r1 w1 where g: "get_or_create_pvsite w p country ov = (r1, w1)"
      by (cases "get_or_create_pvsite w p country ov") auto
    from gocp_calls_kind[OF g] obtain cs1 where cs1: "calls w1 = calls w @ cs1"
      "\<forall>c \<in> set cs1. (\<exists>n m. c = GetSite n m) \<or> (\<exists>s. c = CreateSite s)"
      "parse_datetime w1 = parse_datetime w" by blast
    have no: "\<And>d. InsertGeneration d \<notin> set cs1" using cs1(2) by auto
    show ?thesis
    proof (cases r1)
      case (Inl e)
      with assms Inr False g have "w' = w1" by (simp add: save_site_def)
      with cs1 no show ?thesis by (simp add: new_calls_def)
    next
      case site: (Inr site)
      have nm: "row_client_site_name site = client_site_name p"
        using gocp_site_name g site by blast
      show ?thesis
      proof (cases "prepare_generation w1 b site")
        case (Inl e)
        with assms Inr False g site have "w' = w1" by (simp add: save_site_def)
        with cs1 no show ?thesis by (simp add: new_calls_def)
      next
        case d: (Inr d)
        from assms Inr False g site d
        have "(calls w' = calls w1 @ [InsertGeneration d]
              \<or> calls w' = calls w1 @ [InsertGeneration d, Commit])
              \<and> parse_datetime w' = parse_datetime w1"
          by (auto simp: save_site_def ext_def split: option.splits)
        moreover have "prepare_generation w b site = Inr d"
          using d prepare_generation_cong[OF cs1(3), of b site] by simp
        ultimately show ?thesis
          using cs1 no Inr False nm by (auto simp: new_calls_def)
      qed
    qed
  qed
qed

lemma save_site_calls_extend:
  "save_site country ov df tso p w = (r, w') \<Longrightarrow> \<exists>cs. calls w' = calls w @ cs"
  using save_site_step[of country ov df tso p w r w'] by blast

lemma save_sites_inserts:
  assumes "save_sites country ov df ss w = (r, w')"
  shows "parse_datetime w' = parse_datetime w \<and> (\<exists>cs. calls w' = calls w @ cs)
       \<and> (\<forall>d. InsertGeneration d \<in> set (new_calls w w') \<longrightarrow>
            (\<exists>(tso, p) \<in> set ss. \<exists>b site. tso_bucket country df tso = Inr b \<and> \<not> df_empty b
                \<and> row_client_site_name site = client_site_name p
                \<and> prepare_generation w b site = Inr d))"
  using assms
proof (induction ss arbitrary: w)
  case Nil
  then show ?case by (simp add: new_calls_def)
next
  case (Cons tp ss)
  obtain tso p where tp: "tp = (tso, p)" by (cases tp) auto
  obtain r1 w1 where st: "save_site country ov df tso p w = (r1, w1)"
    by (cases "save_site country ov df tso p w") auto
  note s1 = save_site_inserts[OF st]
  from save_site_calls_extend[OF st] obtain cs1 where cs1: "calls w1 = calls w @ cs1" by blast
  show ?case
  proof (cases r1)
    case (Inl e)
    with Cons.prems tp st have "w' = w1" by simp
    with s1 cs1 tp show ?thesis by fastforce
  next
    case (Inr u)
    with Cons.prems tp st have rest: "save_sites country ov df ss w1 = (r, w')" by simp
    note ih = Cons.IH[OF rest]
    from ih obtain cs2 where cs2: "calls w' = calls w1 @ cs2" by blast
    have pd: "parse_datetime w' = parse_datetime w" using ih s1 by simp
    have split: "new_calls w w' = new_calls w w1 @ new_calls w1 w'"
      using cs1 cs2 by (simp add: new_calls_def)
    have "\<forall>d. InsertGeneration d \<in> set (new_calls w w') \<longrightarrow>
            (\<exists>(tso, p) \<in> set (tp # ss). \<exists>b site. tso_bucket country df tso = Inr b \<and> \<not> df_empty b
                \<and> row_client_site_name site = client_site_name p
                \<and> prepare_generation w b site = Inr d)"
    proof (intro allI impI)
      fix d assume "InsertGeneration d \<in> set (new_calls w w')"
      then consider "InsertGeneration d \<in> set (new_calls w w1)"
        | "InsertGeneration d \<in> set (new_calls w1 w')" using split by auto
      then show "\<exists>(tso, p) \<in> set (tp # ss). \<exists>b site. tso_bucket country df tso = Inr b \<and> \<not> df_empty b
                \<and> row_client_site_name site = client_site_name p
                \<and> prepare_generation w b site = Inr d"
      proof cases
        case 1
        with s1 tp show ?thesis by fastforce
      next
        case 2
        with ih obtain tso' p' b site where
          "(tso', p') \<in> set ss" "tso_bucket country df tso' = Inr b" "\<not> df_empty b"
          "row_client_site_name site = client_site_name p'" "prepare_generation w1 b site = Inr d"
          by blast
        moreover have "prepare_generation w b site = prepare_generation w1 b site"
          using prepare_generation_cong[of w w1 b site] s1 by simp
        ultimately show ?thesis by fastforce
      qed
    qed
    with pd cs1 cs2 show ?thesis by simp
  qed
qed


lemma save_site_success:
  assumes "save_site country ov df tso p w = (Inr (), w')"
  shows "\<exists>b. tso_bucket country df tso = Inr b
           \<and> (if df_empty b then inserted (new_calls w w') = []
               else (\<exists>site d. row_client_site_name site = client_site_name p
                       \<and> prepare_generation w b site = Inr d
                       \<and> inserted (new_calls w w') = [d]))"
proof (cases "tso_bucket country df tso")
  case (Inl e)
  with assms show ?thesis by (auto simp: save_site_def)
next
  case (Inr b)
  show ?thesis
  proof (cases "df_empty b")
    case True
    with assms Inr show ?thesis by (simp add: save_site_def new_calls_def)
  next
    case False
    obtain r1 w1 where g: "get_or_create_pvsite w p country ov = (r1, w1)"
      by (cases "get_or_create_pvsite w p country ov") auto
    from gocp_cases[OF g] gocp_frame[OF g]
    obtain cs1 where cs1: "calls w1 = calls w @ cs1" "inserted cs1 = []"
      "parse_datetime w1 = parse_datetime w"
      by (auto simp: new_calls_def)
    from assms Inr False g obtain site where site: "r1 = Inr site"
      by (cases r1) (auto simp: save_site_def)
    have nm: "row_client_site_name site = client_site_name p"
      using gocp_site_name g site by blast
    from assms Inr False g site obtain d where d: "prepare_generation w1 b site = Inr d"
      by (cases "prepare_generation w1 b site") (auto simp: save_site_def)
    from assms Inr False g site d
    have "calls w' = calls w1 @ [InsertGeneration d, Commit]"
      by (auto simp: save_site_def ext_def split: option.splits)
    then have "inserted (new_calls w w') = [d]"
      using cs1(1,2) by (simp add: new_calls_def inserted_append)
    moreover have "prepare_generation w b site = Inr d"
      using d prepare_generation_cong[OF cs1(3), of b site] by simp
    ultimately show ?thesis using Inr False nm by auto
  qed
qed

lemma save_sites_success:
  assumes "save_sites country ov df ss w = (Inr (), w')"
  shows "list_all2 (\<lambda>(tso, p) d. \<exists>b site. tso_bucket country df tso = Inr b
              \<and> row_client_site_name site = client_site_name p
              \<and> prepare_generation w b site = Inr d)
           (filter (\<lambda>(tso, p). \<exists>b. tso_bucket country df tso = Inr b \<and> \<not> df_empty b) ss)
           (inserted (new_calls w w'))"
  using assms
proof (induction ss arbitrary: w)
  case Nil
  then show ?case by (simp add: new_calls_def)
next
  case (Cons tp ss)
  obtain tso p where tp: "tp = (tso, p)" by (cases tp) auto
  obtain r1 w1 where st: "save_site country ov df tso p w = (r1, w1)"
    by (cases "save_site country ov df tso p w") auto
  from Cons.prems tp st have r1: "r1 = Inr ()" by (cases r1) auto
  with Cons.prems tp st have rest: "save_sites country ov df ss w1 = (Inr (), w')" by simp
  from save_site_calls_extend[OF st] obtain cs1 where cs1: "calls w1 = calls w @ cs1" by blast
  from save_sites_inserts[OF rest] obtain cs2 where cs2: "calls w' = calls w1 @ cs2" by blast
  have split: "new_calls w w' = new_calls w w1 @ new_calls w1 w'"
    using cs1 cs2 by (simp add: new_calls_def)
  have pd: "parse_datetime w1 = parse_datetime w" using save_site_inserts[OF st] by simp
  have pg: "\<And>b site. prepare_generation w1 b site = prepare_generation w b site"
    using prepare_generation_cong[OF pd] by simp
  note ih = Cons.IH[OF rest, unfolded pg]
  from save_site_success[OF st[unfolded r1]] obtain b where b: "tso_bucket country df tso = Inr b"
    "if df_empty b then inserted (new_calls w w1) = []
               else (\<exists>site d. row_client_site_name site = client_site_name p
                       \<and> prepare_generation w b site = Inr d
                       \<and> inserted (new_calls w w1) = [d])" by blast
  show ?case
  proof (cases "df_empty b")
    case True
    with b ih tp split show ?thesis by (simp add: inserted_append)
  next
    case False
    with b obtain site d where "row_client_site_name site = client_site_name p"
      "prepare_generation w b site = Inr d" "inserted (new_calls w w1) = [d]" by auto
    with b False ih tp split show ?thesis by (auto simp: inserted_append)
  qed
qed


lemma prepare_generation_stamped:
  assumes "prepare_generation w (df\<lparr>rows := rs\<rparr>) site = Inr d"
  shows "list_all2 (stamped w df site) rs (rows d)"
proof -
  have c: "columns (rename_columns (df\<lparr>rows := rs\<rparr>)
              [(''solar_generation_kw'', ''power_kw''), (''target_datetime_utc'', ''start_utc'')])
         = columns (rename_columns df
              [(''solar_generation_kw'', ''power_kw''), (''target_datetime_utc'', ''start_utc'')])"
    by (simp add: rename_columns_def)
  from prepare_generation_rows[OF assms, unfolded c]
  show ?thesis
    by (auto simp: stamped_def Let_def elim!: list_all2_mono)
qed

lemma de_run_inserts:
  assumes i: "col_index (columns df) ''tso_zone'' = Some i"
    and run: "save_generation_to_site_db df w ''de'' = (r, w')"
  shows "(\<forall>d. InsertGeneration d \<in> set (new_calls w w') \<longrightarrow>
            (\<exists>tso \<in> {''TransnetBW'', ''50Hertz'', ''TenneT'', ''Amprion''}.
               \<exists>site. row_client_site_name site = tso
                 \<and> list_all2 (stamped w df site)
                      (filter (\<lambda>row. cell_at row i = Str tso) (rows df)) (rows d)))
       \<and> (r = Inr () \<longrightarrow>
            list_all2 (\<lambda>(tso, p) d. \<exists>site. row_client_site_name site = tso
                 \<and> list_all2 (stamped w df site)
                      (filter (\<lambda>row. cell_at row i = Str tso) (rows df)) (rows d))
              (filter (\<lambda>(tso, p). filter (\<lambda>row. cell_at row i = Str tso) (rows df) \<noteq> [])
                 DE_TSO_SITES)
              (inserted (new_calls w w')))"
proof -
  from save_generation_calls[OF run]
  consider (loop) ov where "save_sites ''de'' ov df DE_TSO_SITES w = (r, w')" "\<not> df_empty df"
    | (stop) "w' = w" "df_empty df \<or> (\<exists>e. capacity_override df = Inl e)"
    by (auto simp: country_sites_def)
  then show ?thesis
  proof cases
    case loop
    have a: "\<forall>d. InsertGeneration d \<in> set (new_calls w w') \<longrightarrow>
            (\<exists>tso \<in> {''TransnetBW'', ''50Hertz'', ''TenneT'', ''Amprion''}.
               \<exists>site. row_client_site_name site = tso
                 \<and> list_all2 (stamped w df site)
                      (filter (\<lambda>row. cell_at row i = Str tso) (rows df)) (rows d))"
    proof (intro allI impI)
      fix d assume "InsertGeneration d \<in> set (new_calls w w')"
      with save_sites_inserts[OF loop(1)] obtain tso p b site where h:
        "(tso, p) \<in> set DE_TSO_SITES" "tso_bucket ''de'' df tso = Inr b"
        "row_client_site_name site = client_site_name p" "prepare_generation w b site = Inr d"
        by blast
      from h(2) de_bucket[OF i, of tso]
      have b: "b = df\<lparr>rows := filter (\<lambda>row. cell_at row i = Str tso) (rows df)\<rparr>" by simp
      from prepare_generation_stamped[OF h(4)[unfolded b]] de_sites_names[OF h(1)] h(3)
      show "\<exists>tso \<in> {''TransnetBW'', ''50Hertz'', ''TenneT'', ''Amprion''}.
               \<exists>site. row_client_site_name site = tso
                 \<and> list_all2 (stamped w df site)
                      (filter (\<lambda>row. cell_at row i = Str tso) (rows df)) (rows d)"
        by auto
    qed
    have b: "r = Inr () \<longrightarrow>
            list_all2 (\<lambda>(tso, p) d. \<exists>site. row_client_site_name site = tso
                 \<and> list_all2 (stamped w df site)
                      (filter (\<lambda>row. cell_at row i = Str tso) (rows df)) (rows d))
              (filter (\<lambda>(tso, p). filter (\<lambda>row. cell_at row i = Str tso) (rows df) \<noteq> [])
                 DE_TSO_SITES)
              (inserted (new_calls w w'))"
    proof
      assume ok: "r = Inr ()"
      have f: "filter (\<lambda>(tso, p). \<exists>b. tso_bucket ''de'' df tso = Inr b \<and> \<not> df_empty b) DE_TSO_SITES
             = filter (\<lambda>(tso, p). filter (\<lambda>row. cell_at row i = Str tso) (rows df) \<noteq> []) DE_TSO_SITES"
        by (rule filter_cong[OF refl]) (auto simp: de_bucket[OF i] de_bucket_empty[OF i])
      have "list_all2 (\<lambda>(tso, p) d. \<exists>b site. tso_bucket ''de'' df tso = Inr b
              \<and> row_client_site_name site = client_site_name p
              \<and> prepare_generation w b site = Inr d)
           (filter (\<lambda>(tso, p). filter (\<lambda>row. cell_at row i = Str tso) (rows df) \<noteq> []) DE_TSO_SITES)
           (inserted (new_calls w w'))"
        using save_sites_success[OF loop(1)[unfolded ok]] f by simp
      then show "list_all2 (\<lambda>(tso, p) d. \<exists>site. row_client_site_name site = tso
                 \<and> list_all2 (stamped w df site)
                      (filter (\<lambda>row. cell_at row i = Str tso) (rows df)) (rows d))
              (filter (\<lambda>(tso, p). filter (\<lambda>row. cell_at row i = Str tso) (rows df) \<noteq> [])
                 DE_TSO_SITES)
              (inserted (new_calls w w'))"
      proof (rule list.rel_mono_strong)
        fix tp d
        assume tp: "tp \<in> set (filter (\<lambda>(tso, p). filter (\<lambda>row. cell_at row i = Str tso) (rows df) \<noteq> [])
                 DE_TSO_SITES)"
        assume h: "(\<lambda>(tso, p) d. \<exists>b site. tso_bucket ''de'' df tso = Inr b
              \<and> row_client_site_name site = client_site_name p
              \<and> prepare_generation w b site = Inr d) tp d"
        obtain tso p where tpe: "tp = (tso, p)" by (cases tp) auto
        from tp tpe have m: "(tso, p) \<in> set DE_TSO_SITES" by simp
        from h tpe obtain b site where hh: "tso_bucket ''de'' df tso = Inr b"
          "row_client_site_name site = client_site_name p" "prepare_generation w b site = Inr d"
          by auto
        from hh(1) de_bucket[OF i, of tso]
        have b: "b = df\<lparr>rows := filter (\<lambda>row. cell_at row i = Str tso) (rows df)\<rparr>" by simp
        from prepare_generation_stamped[OF hh(3)[unfolded b]] de_sites_names[OF m] hh(2) tpe
        show "(\<lambda>(tso, p) d. \<exists>site. row_client_site_name site = tso
                 \<and> list_all2 (stamped w df site)
                      (filter (\<lambda>row. cell_at row i = Str tso) (rows df)) (rows d)) tp d"
          by auto
      qed
    qed
    from a b show ?thesis by (rule conjI)
  next
    case stop
    have "r = Inr () \<longrightarrow> rows df = []"
      using run stop(2) i
      by (cases "columns df") (auto simp: save_generation_to_site_db_def df_empty_def country_sites_def
          split: if_splits sum.splits)
    then show ?thesis
      using stop(1) by (auto simp: new_calls_def DE_TSO_SITES_def)
  qed
qed


text \<open>
  C3. For country "de" and a table with the column \<^verbatim>\<open>tso_zone\<close>: the bucket of a TSO
  holds exactly the rows whose zone is that TSO's name; a row is in some bucket exactly
  when its zone is one of the four names; a site whose bucket has no rows is passed over
  with the world untouched. In a whole call every lookup and every create is for one of
  the four names and for a name that some row carries; every table that reaches the
  generation insert holds, row by row and in their order, exactly the input rows whose
  zone is one TSO's name, stamped with a site of that name, so that a row with another
  zone reaches no insert; and a call that returns has made one such insert per non-empty
  bucket, in the order of the registry.
\<close>

theorem de_rows_partitioned:
  assumes "col_index (columns generation_data) ''tso_zone'' = Some i"
  shows "(\<forall>(tso, p) \<in> set DE_TSO_SITES.
            tso_bucket ''de'' generation_data tso =
              Inr (generation_data\<lparr>rows := filter (\<lambda>row. cell_at row i = Str tso)
                                              (rows generation_data)\<rparr>))
       \<and> (\<forall>row \<in> set (rows generation_data).
            (\<exists>(tso, p) \<in> set DE_TSO_SITES.
                \<exists>b. tso_bucket ''de'' generation_data tso = Inr b \<and> row \<in> set (rows b))
            \<longleftrightarrow> cell_at row i \<in> {Str ''TransnetBW'', Str ''50Hertz'', Str ''TenneT'', Str ''Amprion''})
       \<and> (\<forall>tso p ov v. filter (\<lambda>row. cell_at row i = Str tso) (rows generation_data) = [] \<longrightarrow>
            save_site ''de'' ov generation_data tso p v = (Inr (), v))
       \<and> (\<forall>r w'. save_generation_to_site_db generation_data w ''de'' = (r, w') \<longrightarrow>
            (\<forall>n m. GetSite n m \<in> set (new_calls w w') \<longrightarrow>
               n \<in> {''TransnetBW'', ''50Hertz'', ''TenneT'', ''Amprion''}
               \<and> (\<exists>row \<in> set (rows generation_data). cell_at row i = Str n))
          \<and> (\<forall>s. CreateSite s \<in> set (new_calls w w') \<longrightarrow>
               row_client_site_name s \<in> {''TransnetBW'', ''50Hertz'', ''TenneT'', ''Amprion''}
               \<and> (\<exists>row \<in> set (rows generation_data). cell_at row i = Str (row_client_site_name s)))
          \<and> (\<forall>d. InsertGeneration d \<in> set (new_calls w w') \<longrightarrow>
               (\<exists>tso \<in> {''TransnetBW'', ''50Hertz'', ''TenneT'', ''Amprion''}.
                  \<exists>site. row_client_site_name site = tso
                    \<and> list_all2 (stamped w generation_data site)
                         (filter (\<lambda>row. cell_at row i = Str tso) (rows generation_data)) (rows d)))
          \<and> (r = Inr () \<longrightarrow>
               map (\<lambda>d. length (rows d)) (inserted (new_calls w w')) =
                 filter (\<lambda>n. 0 < n)
                   (map (\<lambda>(tso, p). length (filter (\<lambda>row. cell_at row i = Str tso)
                                                (rows generation_data)))
                      DE_TSO_SITES)
               \<and> list_all2 (\<lambda>(tso, p) d. \<exists>site. row_client_site_name site = tso
                      \<and> list_all2 (stamped w generation_data site)
                           (filter (\<lambda>row. cell_at row i = Str tso) (rows generation_data)) (rows d))
                    (filter (\<lambda>(tso, p). filter (\<lambda>row. cell_at row i = Str tso)
                                           (rows generation_data) \<noteq> [])
                       DE_TSO_SITES)
                    (inserted (new_calls w w'))))"
proof -
  have a: "\<forall>(tso, p) \<in> set DE_TSO_SITES.
            tso_bucket ''de'' generation_data tso =
              Inr (generation_data\<lparr>rows := filter (\<lambda>row. cell_at row i = Str tso)
                                              (rows generation_data)\<rparr>)"
    using de_bucket[OF assms] by auto
  have b: "\<forall>row \<in> set (rows generation_data).
            (\<exists>(tso, p) \<in> set DE_TSO_SITES.
                \<exists>b. tso_bucket ''de'' generation_data tso = Inr b \<and> row \<in> set (rows b))
            \<longleftrightarrow> cell_at row i \<in> {Str ''TransnetBW'', Str ''50Hertz'', Str ''TenneT'', Str ''Amprion''}"
  proof
    fix row assume "row \<in> set (rows generation_data)"
    then have "\<And>tso. (\<exists>b. tso_bucket ''de'' generation_data tso = Inr b \<and> row \<in> set (rows b))
                  \<longleftrightarrow> cell_at row i = Str tso"
      by (simp add: de_bucket[OF assms])
    then show "(\<exists>(tso, p) \<in> set DE_TSO_SITES.
                \<exists>b. tso_bucket ''de'' generation_data tso = Inr b \<and> row \<in> set (rows b))
            \<longleftrightarrow> cell_at row i \<in> {Str ''TransnetBW'', Str ''50Hertz'', Str ''TenneT'', Str ''Amprion''}"
      by (simp add: DE_TSO_SITES_def)
  qed
  have c: "\<forall>tso p ov v. filter (\<lambda>row. cell_at row i = Str tso) (rows generation_data) = [] \<longrightarrow>
            save_site ''de'' ov generation_data tso p v = (Inr (), v)"
    by (simp add: save_site_def de_bucket[OF assms] df_empty_def)
  have d: "\<forall>r w'. save_generation_to_site_db generation_data w ''de'' = (r, w') \<longrightarrow>
            (\<forall>n m. GetSite n m \<in> set (new_calls w w') \<longrightarrow>
               n \<in> {''TransnetBW'', ''50Hertz'', ''TenneT'', ''Amprion''}
               \<and> (\<exists>row \<in> set (rows generation_data). cell_at row i = Str n))
          \<and> (\<forall>s. CreateSite s \<in> set (new_calls w w') \<longrightarrow>
               row_client_site_name s \<in> {''TransnetBW'', ''50Hertz'', ''TenneT'', ''Amprion''}
               \<and> (\<exists>row \<in> set (rows generation_data). cell_at row i = Str (row_client_site_name s)))
          \<and> (\<forall>d. InsertGeneration d \<in> set (new_calls w w') \<longrightarrow>
               (\<exists>tso \<in> {''TransnetBW'', ''50Hertz'', ''TenneT'', ''Amprion''}.
                  \<exists>site. row_client_site_name site = tso
                    \<and> list_all2 (stamped w generation_data site)
                         (filter (\<lambda>row. cell_at row i = Str tso) (rows generation_data)) (rows d)))
          \<and> (r = Inr () \<longrightarrow>
               map (\<lambda>d. length (rows d)) (inserted (new_calls w w')) =
                 filter (\<lambda>n. 0 < n)
                   (map (\<lambda>(tso, p). length (filter (\<lambda>row. cell_at row i = Str tso)
                                                (rows generation_data)))
                      DE_TSO_SITES)
               \<and> list_all2 (\<lambda>(tso, p) d. \<exists>site. row_client_site_name site = tso
                      \<and> list_all2 (stamped w generation_data site)
                           (filter (\<lambda>row. cell_at row i = Str tso) (rows generation_data)) (rows d))
                    (filter (\<lambda>(tso, p). filter (\<lambda>row. cell_at row i = Str tso)
                                           (rows generation_data) \<noteq> [])
                       DE_TSO_SITES)
                    (inserted (new_calls w w')))"
  proof (intro allI impI)
    fix r w' assume run: "save_generation_to_site_db generation_data w ''de'' = (r, w')"
    note x = de_run_calls[OF assms run]
    note y = de_run_inserts[OF assms run]
    from x have x1: "\<forall>n m. GetSite n m \<in> set (new_calls w w') \<longrightarrow>
               n \<in> {''TransnetBW'', ''50Hertz'', ''TenneT'', ''Amprion''}
               \<and> (\<exists>row \<in> set (rows generation_data). cell_at row i = Str n)" by (rule conjunct1)
    from x have x2: "\<forall>s. CreateSite s \<in> set (new_calls w w') \<longrightarrow>
               row_client_site_name s \<in> {''TransnetBW'', ''50Hertz'', ''TenneT'', ''Amprion''}
               \<and> (\<exists>row \<in> set (rows generation_data). cell_at row i = Str (row_client_site_name s))"
      by (rule conjunct2[THEN conjunct1])
    note x3 = x[THEN conjunct2, THEN conjunct2]
    note y1 = y[THEN conjunct1]
    note y2 = y[THEN conjunct2]
    have z: "r = Inr () \<longrightarrow>
               map (\<lambda>d. length (rows d)) (inserted (new_calls w w')) =
                 filter (\<lambda>n. 0 < n)
                   (map (\<lambda>(tso, p). length (filter (\<lambda>row. cell_at row i = Str tso)
                                                (rows generation_data)))
                      DE_TSO_SITES)
               \<and> list_all2 (\<lambda>(tso, p) d. \<exists>site. row_client_site_name site = tso
                      \<and> list_all2 (stamped w generation_data site)
                           (filter (\<lambda>row. cell_at row i = Str tso) (rows generation_data)) (rows d))
                    (filter (\<lambda>(tso, p). filter (\<lambda>row. cell_at row i = Str tso)
                                           (rows generation_data) \<noteq> [])
                       DE_TSO_SITES)
                    (inserted (new_calls w w'))"
      using x3 y2 by (intro impI conjI) (erule (1) mp)+
    show "(\<forall>n m. GetSite n m \<in> set (new_calls w w') \<longrightarrow>
               n \<in> {''TransnetBW'', ''50Hertz'', ''TenneT'', ''Amprion''}
               \<and> (\<exists>row \<in> set (rows generation_data). cell_at row i = Str n))
          \<and> (\<forall>s. CreateSite s \<in> set (new_calls w w') \<longrightarrow>
               row_client_site_name s \<in> {''TransnetBW'', ''50Hertz'', ''TenneT'', ''Amprion''}
               \<and> (\<exists>row \<in> set (rows generation_data). cell_at row i = Str (row_client_site_name s)))
          \<and> (\<forall>d. InsertGeneration d \<in> set (new_calls w w') \<longrightarrow>
               (\<exists>tso \<in> {''TransnetBW'', ''50Hertz'', ''TenneT'', ''Amprion''}.
                  \<exists>site. row_client_site_name site = tso
                    \<and> list_all2 (stamped w generation_data site)
                         (filter (\<lambda>row. cell_at row i = Str tso) (rows generation_data)) (rows d)))
          \<and> (r = Inr () \<longrightarrow>
               map (\<lambda>d. length (rows d)) (inserted (new_calls w w')) =
                 filter (\<lambda>n. 0 < n)
                   (map (\<lambda>(tso, p). length (filter (\<lambda>row. cell_at row i = Str tso)
                                                (rows generation_data)))
                      DE_TSO_SITES)
               \<and> list_all2 (\<lambda>(tso, p) d. \<exists>site. row_client_site_name site = tso
                      \<and> list_all2 (stamped w generation_data site)
                           (filter (\<lambda>row. cell_at row i = Str tso) (rows generation_data)) (rows d))
                    (filter (\<lambda>(tso, p). filter (\<lambda>row. cell_at row i = Str tso)
                                           (rows generation_data) \<noteq> [])
                       DE_TSO_SITES)
                    (inserted (new_calls w w')))"
      by (rule conjI[OF x1 conjI[OF x2 conjI[OF y1 z]]])
  qed
  show ?thesis by (rule conjI[OF a conjI[OF b conjI[OF c d]]])
qed

theorem de_rows_partitioned_witness:
  "col_index (columns sample_generation) ''tso_zone'' = Some 3
   \<and> map (\<lambda>(tso, p). length (filter (\<lambda>row. cell_at row 3 = Str tso) (rows sample_generation)))
        DE_TSO_SITES = [0, 0, 1, 1]
   \<and> length (rows sample_generation) = 3
   \<and> fst (save_generation_to_site_db sample_generation world0 ''de'') = Inr ()
   \<and> map (\<lambda>d. length (rows d))
        (inserted (new_calls world0 (snd (save_generation_to_site_db sample_generation world0 ''de''))))
      = [1, 1]
   \<and> inserted (new_calls world0 (snd (save_generation_to_site_db sample_generation world0 ''de''))) =
        [\<lparr>columns = [''power_kw'', ''start_utc'', ''capacity_kw'', ''tso_zone'', ''site_uuid''],
          rows = [[Num 5, Time 1700000100000000000, Num 100, Str ''TenneT'', Uuid 0]]\<rparr>,
         \<lparr>columns = [''power_kw'', ''start_utc'', ''capacity_kw'', ''tso_zone'', ''site_uuid''],
          rows = [[Num 7, Time 1700000100000000000, Num 70, Str ''Amprion'', Uuid 1]]\<rparr>]"
proof -
  let ?run = "save_generation_to_site_db sample_generation world0 ''de''"
  have e: "?run = (fst ?run, snd ?run)" by simp
  have idx: "col_index (columns sample_generation) ''tso_zone'' = Some 3"
    by (simp add: sample_generation_def)
  have ok: "fst ?run = Inr ()" using sample_generation_run by simp
  have counts: "map (\<lambda>(tso, p). length (filter (\<lambda>row. cell_at row 3 = Str tso) (rows sample_generation)))
        DE_TSO_SITES = [0, 0, 1, 1]"
    by (simp add: sample_generation_def DE_TSO_SITES_def cell_at_def)
  note t = de_rows_partitioned[OF idx, of world0, THEN conjunct2, THEN conjunct2, THEN conjunct2,
      rule_format, OF e, THEN conjunct2, THEN conjunct2, THEN conjunct2, rule_format, OF ok,
      THEN conjunct1]
  from t counts have "map (\<lambda>d. length (rows d)) (inserted (new_calls world0 (snd ?run))) = [1, 1]"
    by simp
  moreover have "inserted (new_calls world0 (snd ?run)) =
        [\<lparr>columns = [''power_kw'', ''start_utc'', ''capacity_kw'', ''tso_zone'', ''site_uuid''],
          rows = [[Num 5, Time 1700000100000000000, Num 100, Str ''TenneT'', Uuid 0]]\<rparr>,
         \<lparr>columns = [''power_kw'', ''start_utc'', ''capacity_kw'', ''tso_zone'', ''site_uuid''],
          rows = [[Num 7, Time 1700000100000000000, Num 70, Str ''Amprion'', Uuid 1]]\<rparr>]"
    using sample_generation_run by simp
  ultimately show ?thesis using idx counts ok by (simp add: sample_generation_def)
qed

end
